theory Spec2Isabelle
  imports Main "HOL-Library.Sublist"
begin

section \<open>The build-matrix generator of \<open>.evergreen/scripts/generate_config.py\<close>\<close>

text \<open>
  The script builds the list of Evergreen build variants of the driver from a few axes
  (server version, interpreter, host, auth/SSL, topology, sync mode). This theory embeds
  its functions in HOL and proves the properties its specification states about them.

  Python strings are \<open>string\<close> (the script's strings are ASCII), a \<open>dict\<close> is an association
  list in insertion order, an exception is the \<open>Inl\<close> side of a sum.
\<close>

subsection \<open>Exceptions\<close>

text \<open>
  \<open>KeyError\<close> carries the missing key and \<open>ValueError\<close> its message. \<open>TypeError\<close> is what the
  interpreter raises when a call does not fit the signature of the function called.
  \<open>InvalidReference\<close> is no exception of Python: it is the result of reading, in the store
  of section \<open>The store\<close> below, an address that holds no object, which no reference of a
  running program does.
\<close>

datatype py_error = KeyError string | ValueError string | TypeError | InvalidReference

subsection \<open>Strings\<close>

text \<open>
  \<open>s.replace(old, new)\<close> for a one-character \<open>old\<close>, the only form the script uses
  (\<open>replace(" ", "-")\<close> and \<open>replace(".", "")\<close>).
\<close>

definition replace :: "char \<Rightarrow> string \<Rightarrow> string \<Rightarrow> string" where
  "replace old new s = concat (map (\<lambda>c. if c = old then new else [c]) s)"

text \<open>
  \<open>s.lower()\<close> on ASCII: an upper-case letter gets bit \<open>0x20\<close> set, every other
  character stays.
\<close>

definition lower_char :: "char \<Rightarrow> char" where
  "lower_char c =
     (if c \<in> set ''ABCDEFGHIJKLMNOPQRSTUVWXYZ''
      then (case c of Char b0 b1 b2 b3 b4 b5 b6 b7 \<Rightarrow> Char b0 b1 b2 b3 b4 True b6 b7)
      else c)"

definition lower :: "string \<Rightarrow> string" where
  "lower s = map lower_char s"

subsection \<open>Globals\<close>

type_synonym pydict = "(string \<times> string) list"

definition ALL_VERSIONS :: "string list" where
  "ALL_VERSIONS = [''4.0'', ''4.4'', ''5.0'', ''6.0'', ''7.0'', ''8.0'', ''rapid'', ''latest'']"

definition CPYTHONS :: "string list" where
  "CPYTHONS = [''3.9'', ''3.10'', ''3.11'', ''3.12'', ''3.13'']"

definition PYPYS :: "string list" where
  "PYPYS = [''pypy3.9'', ''pypy3.10'']"

definition ALL_PYTHONS :: "string list" where
  "ALL_PYTHONS = CPYTHONS @ PYPYS"

definition MIN_MAX_PYTHON :: "string list" where
  "MIN_MAX_PYTHON = [hd CPYTHONS, last CPYTHONS]"

definition BATCHTIME_WEEK :: int where
  "BATCHTIME_WEEK = 10080"

definition AUTH_SSLS :: "(string \<times> string) list" where
  "AUTH_SSLS = [(''auth'', ''ssl''), (''noauth'', ''ssl''), (''noauth'', ''nossl'')]"

definition TOPOLOGIES :: "string list" where
  "TOPOLOGIES = [''standalone'', ''replica_set'', ''sharded_cluster'']"

definition SYNCS :: "string list" where
  "SYNCS = [''sync'', ''async'']"

definition DISPLAY_LOOKUP :: "(string \<times> pydict) list" where
  "DISPLAY_LOOKUP =
     [(''ssl'', [(''ssl'', ''SSL''), (''nossl'', ''NoSSL'')]),
      (''auth'', [(''auth'', ''Auth''), (''noauth'', ''NoAuth'')]),
      (''test_suites'', [(''default'', ''Sync''), (''default_async'', ''Async'')]),
      (''coverage'', [(''coverage'', ''cov'')])]"

text \<open>
  The dataclass \<open>Host\<close>; its fields carry the prefix \<open>host_\<close> here. The type parameter is
  what stands for a \<open>dict\<close> of expansions: its value, as here, or its address in a store.
\<close>

record 'e Host =
  host_name :: string
  host_run_on :: string
  host_display_name :: string
  host_expansions :: 'e

definition macos_expansions :: pydict where
  "macos_expansions = [(''SKIP_CSOT_TESTS'', ''true'')]"

definition HOSTS :: "(string \<times> pydict Host) list" where
  "HOSTS =
     [(''rhel8'', \<lparr>host_name = ''rhel8'', host_run_on = ''rhel87-small'',
                  host_display_name = ''RHEL8'', host_expansions = []\<rparr>),
      (''win64'', \<lparr>host_name = ''win64'', host_run_on = ''windows-64-vsMulti-small'',
                  host_display_name = ''Win64'', host_expansions = macos_expansions\<rparr>),
      (''win32'', \<lparr>host_name = ''win32'', host_run_on = ''windows-64-vsMulti-small'',
                  host_display_name = ''Win32'', host_expansions = macos_expansions\<rparr>),
      (''macos'', \<lparr>host_name = ''macos'', host_run_on = ''macos-14'',
                  host_display_name = ''macOS'', host_expansions = macos_expansions\<rparr>),
      (''macos-arm64'', \<lparr>host_name = ''macos-arm64'', host_run_on = ''macos-14-arm64'',
                  host_display_name = ''macOS Arm64'', host_expansions = macos_expansions\<rparr>)]"

subsection \<open>\<open>get_python_binary\<close>\<close>

definition get_python_binary :: "string \<Rightarrow> string \<Rightarrow> py_error + string" where
  "get_python_binary python host =
     (if host \<in> set [''win64'', ''win32''] then
        (let base = (if host = ''win32'' then ''C:/python/32'' else ''C:/python'');
             python' = replace (CHR ''.'') [] python
         in Inr (base @ ''/Python'' @ python' @ ''/python.exe''))
      else if host = ''rhel8'' then
        Inr (''/opt/python/'' @ python @ ''/bin/python3'')
      else if host \<in> set [''macos'', ''macos-arm64''] then
        Inr (''/Library/Frameworks/Python.Framework/Versions/'' @ python @ ''/bin/python3'')
      else Inl (ValueError (''no match found for python '' @ python @ '' on '' @ host)))"

subsection \<open>\<open>get_display_name\<close>\<close>

text \<open>
  The body of the loop over \<open>kwargs.items()\<close>: the token \<open>name\<close> of one axis binding.
  \<open>DISPLAY_LOOKUP[key.lower()][value]\<close> raises \<open>KeyError\<close> for a value its table lacks.
\<close>

definition axis_name :: "string \<Rightarrow> string \<Rightarrow> py_error + string" where
  "axis_name key v =
     (if key = ''version'' then
        Inr (if v \<notin> set [''rapid'', ''latest''] then ''v'' @ v else v)
      else if key = ''python'' then
        Inr (if \<not> prefix ''pypy'' v then ''py'' @ v else v)
      else
        (case map_of DISPLAY_LOOKUP (lower key) of
           Some table \<Rightarrow>
             (case map_of table v of
                Some n \<Rightarrow> Inr n
              | None \<Rightarrow> Inl (KeyError v))
         | None \<Rightarrow> Inl (ValueError (''Missing display handling for '' @ key))))"

fun display_name_loop :: "pydict \<Rightarrow> string \<Rightarrow> py_error + string" where
  "display_name_loop [] dn = Inr dn"
| "display_name_loop ((key, v) # rest) dn =
     (case axis_name key v of
        Inl e \<Rightarrow> Inl e
      | Inr n \<Rightarrow> display_name_loop rest (dn @ '' '' @ n))"

text \<open>
  \<open>kwargs\<close> are the keyword arguments in the order the caller wrote them. \<open>HOSTS[host]\<close>
  raises \<open>KeyError\<close> for a host that is not registered.
\<close>

definition get_display_name :: "string \<Rightarrow> string \<Rightarrow> pydict \<Rightarrow> py_error + string" where
  "get_display_name base host kwargs =
     (case map_of HOSTS host of
        None \<Rightarrow> Inl (KeyError host)
      | Some h \<Rightarrow> display_name_loop kwargs (base @ '' '' @ host_display_name h))"

text \<open>
  A call \<open>get_display_name(*args, **kwargs)\<close> as the interpreter binds it to the signature
  \<open>(base, host, **kwargs)\<close>: at most two positional arguments, no parameter given twice,
  none missing.
\<close>

definition call_get_display_name :: "string list \<Rightarrow> pydict \<Rightarrow> py_error + string" where
  "call_get_display_name args kwargs =
     (case args of
        [] \<Rightarrow>
          (case (map_of kwargs ''base'', map_of kwargs ''host'') of
             (Some base, Some host) \<Rightarrow>
               get_display_name base host
                 (filter (\<lambda>(k, _). k \<noteq> ''base'' \<and> k \<noteq> ''host'') kwargs)
           | _ \<Rightarrow> Inl TypeError)
      | [base] \<Rightarrow>
          (if ''base'' \<in> fst ` set kwargs then Inl TypeError
           else (case map_of kwargs ''host'' of
                   Some host \<Rightarrow>
                     get_display_name base host (filter (\<lambda>(k, _). k \<noteq> ''host'') kwargs)
                 | None \<Rightarrow> Inl TypeError))
      | [base, host] \<Rightarrow>
          (if ''base'' \<in> fst ` set kwargs \<or> ''host'' \<in> fst ` set kwargs then Inl TypeError
           else get_display_name base host kwargs)
      | _ \<Rightarrow> Inl TypeError)"

subsection \<open>\<open>zip_cycle\<close>\<close>

text \<open>
  \<open>itertools.cycle(iterable)\<close>: an iterator that yields the elements of the iterable, saving
  them, and then the saved elements again and again. Its state is the pair of the elements
  still to come in this pass and the saved ones. \<open>next_cycle\<close> is \<open>next\<close>; it returns \<open>None\<close>
  where the iterator raises \<open>StopIteration\<close>, which a cycle does only over no elements.
\<close>

type_synonym 'a cycle = "'a list \<times> 'a list"

definition cycle :: "'a list \<Rightarrow> 'a cycle" where
  "cycle iterable = (iterable, iterable)"

fun next_cycle :: "'a cycle \<Rightarrow> 'a option \<times> 'a cycle" where
  "next_cycle (x # pending, saved) = (Some x, (pending, saved))"
| "next_cycle ([], x # saved) = (Some x, (saved, x # saved))"
| "next_cycle ([], []) = (None, ([], []))"

text \<open>
  \<open>itertools.zip_longest(*iterables)\<close> with its fill value \<open>None\<close>: one tuple per position,
  until every iterable is exhausted.
\<close>

lemma sum_length_tl_le:
  "sum_list (map (\<lambda>xs. length xs - Suc 0) xss) \<le> sum_list (map length xss)"
  by (induction xss) auto

lemma sum_length_tl_less:
  "xs \<in> set xss \<Longrightarrow> xs \<noteq> [] \<Longrightarrow>
   sum_list (map (\<lambda>xs. length xs - Suc 0) xss) < sum_list (map length xss)"
proof (induction xss)
  case Nil
  then show ?case by simp
next
  case (Cons a xss)
  show ?case
  proof (cases "a = []")
    case True
    with Cons show ?thesis by auto
  next
    case False
    then have "length a - Suc 0 < length a" by (cases a) auto
    with sum_length_tl_le [of xss] show ?thesis by simp
  qed
qed

function zip_longest :: "'a list list \<Rightarrow> 'a option list list" where
  "zip_longest iterables =
     (if \<forall>xs \<in> set iterables. xs = [] then []
      else map (\<lambda>xs. case xs of [] \<Rightarrow> None | x # _ \<Rightarrow> Some x) iterables
           # zip_longest (map tl iterables))"
  by pat_completeness auto
termination
  by (relation "measure (\<lambda>xss. sum_list (map length xss))")
    (auto simp: o_def intro: sum_length_tl_less)

declare zip_longest.simps [simp del]

text \<open>
  The generator \<open>zip_cycle\<close>, as the list of the tuples it yields (a tuple is the list of
  its slots). The loop runs once per tuple of \<open>zip_longest\<close> and takes \<open>next(i, empty_default)\<close>
  of every cycle each time.
\<close>

fun zip_cycle_loop :: "'b list \<Rightarrow> 'a cycle list \<Rightarrow> 'a \<Rightarrow> 'a list list" where
  "zip_cycle_loop [] cycles empty_default = []"
| "zip_cycle_loop (_ # rest) cycles empty_default =
     (let rs = map next_cycle cycles
      in map (\<lambda>r. case fst r of Some x \<Rightarrow> x | None \<Rightarrow> empty_default) rs
         # zip_cycle_loop rest (map snd rs) empty_default)"

definition zip_cycle :: "'a list list \<Rightarrow> 'a \<Rightarrow> 'a list list" where
  "zip_cycle iterables empty_default =
     zip_cycle_loop (zip_longest iterables) (map cycle iterables) empty_default"

text \<open>The length of the longest of the iterables, 0 when there is none.\<close>

definition longest :: "'a list list \<Rightarrow> nat" where
  "longest iterables = foldr max (map length iterables) 0"

text \<open>What the \<open>i\<close>-th call of \<open>next\<close> on a cycle returns, counting from 0.\<close>

fun cycle_nth :: "'a cycle \<Rightarrow> nat \<Rightarrow> 'a option" where
  "cycle_nth c 0 = fst (next_cycle c)"
| "cycle_nth c (Suc i) = cycle_nth (snd (next_cycle c)) i"

subsection \<open>\<open>create_variant\<close>\<close>

text \<open>
  The fields of shrub's \<open>BuildVariant\<close> that the script sets. A task reference
  \<open>EvgTaskRef(name=n)\<close> is its name. A field that is \<open>None\<close> is absent from the variant.
\<close>

record 'e BuildVariant =
  name :: string
  display_name :: string
  tasks :: "string list"
  expansions :: "'e option"
  run_on :: "string list"
  batchtime :: "int option"
  tags :: "string list option"

text \<open>
  The keyword arguments \<open>**kwargs\<close> of \<open>create_variant\<close> that its callers pass; \<open>None\<close> is a
  keyword that was not given.
\<close>

record 'e variant_kwargs =
  kw_expansions :: "'e option"
  kw_batchtime :: "int option"
  kw_tags :: "string list option"

text \<open>\<open>d[k] = v\<close> and \<open>d.update(other)\<close>: a key that is present keeps its place.\<close>

fun dict_set :: "pydict \<Rightarrow> string \<Rightarrow> string \<Rightarrow> pydict" where
  "dict_set [] k v = [(k, v)]"
| "dict_set ((k', v') # d) k v =
     (if k' = k then (k, v) # d else (k', v') # dict_set d k v)"

definition dict_update :: "pydict \<Rightarrow> pydict \<Rightarrow> pydict" where
  "dict_update d other = foldl (\<lambda>acc (k, v). dict_set acc k v) d other"

text \<open>
  The truth value of an optional string, as in \<open>if python:\<close> and \<open>host or "rhel8"\<close>: \<open>None\<close>
  and the empty string are false.
\<close>

fun truthy :: "string option \<Rightarrow> string option" where
  "truthy None = None"
| "truthy (Some s) = (if s = [] then None else Some s)"

definition create_variant ::
  "string list \<Rightarrow> string \<Rightarrow> string option \<Rightarrow> string option \<Rightarrow> string option \<Rightarrow>
   pydict variant_kwargs \<Rightarrow> py_error + pydict BuildVariant" where
  "create_variant task_names dn python version host kwargs =
     (let task_refs = task_names;
          expansions0 = (case kw_expansions kwargs of None \<Rightarrow> [] | Some d \<Rightarrow> d);
          host' = (case truthy host of None \<Rightarrow> ''rhel8'' | Some h \<Rightarrow> h)
      in case map_of HOSTS host' of
           None \<Rightarrow> Inl (KeyError host')
         | Some profile \<Rightarrow>
            (let run_on' = [host_run_on profile];
                 name' = lower (replace (CHR '' '') ''-'' dn)
             in case (case truthy python of
                        None \<Rightarrow> Inr expansions0
                      | Some p \<Rightarrow>
                          (case get_python_binary p host' of
                             Inl e \<Rightarrow> Inl e
                           | Inr binary \<Rightarrow> Inr (dict_set expansions0 ''PYTHON_BINARY'' binary))) of
                  Inl e \<Rightarrow> Inl e
                | Inr expansions1 \<Rightarrow>
                   (let expansions2 = (case truthy version of
                                         None \<Rightarrow> expansions1
                                       | Some v \<Rightarrow> dict_set expansions1 ''VERSION'' v);
                        expansions3 = dict_update expansions2 (host_expansions profile);
                        expansions4 = (if expansions3 = [] then None else Some expansions3)
                    in Inr \<lparr>name = name', display_name = dn, tasks = task_refs,
                            expansions = expansions4, run_on = run_on',
                            batchtime = kw_batchtime kwargs, tags = kw_tags kwargs\<rparr>)))"

text \<open>The expansions a variant carries: none when the field is absent.\<close>

definition expansions_of :: "pydict BuildVariant \<Rightarrow> pydict" where
  "expansions_of variant = (case expansions variant of None \<Rightarrow> [] | Some d \<Rightarrow> d)"

subsection \<open>Variants\<close>

text \<open>
  The values the strategies pass through \<open>zip_cycle\<close>: strings, pairs of strings (the
  elements of \<open>AUTH_SSLS\<close>) and \<open>None\<close>, the default of \<open>empty_default\<close>.
\<close>

datatype pyval = Str string | Tuple2 string string | PyNone

text \<open>
  A \<open>for\<close> loop over a list whose body updates the local state (here the list \<open>variants\<close>)
  or raises.
\<close>

fun for_loop :: "('a \<Rightarrow> 's \<Rightarrow> py_error + 's) \<Rightarrow> 'a list \<Rightarrow> 's \<Rightarrow> py_error + 's" where
  "for_loop body [] s = Inr s"
| "for_loop body (x # xs) s =
     (case body x s of
        Inl e \<Rightarrow> Inl e
      | Inr s' \<Rightarrow> for_loop body xs s')"

text \<open>
  \<open>create_ocsp_variants\<close>. Both loops call \<open>get_display_name(base_display, host, version,
  python)\<close>, with four positional arguments. The target \<open>version, python\<close> of the first
  loop unpacks a tuple of two strings; \<open>zip_cycle\<close> yields nothing else there.
\<close>

definition create_ocsp_variants :: "py_error + pydict BuildVariant list" where
  "create_ocsp_variants =
     (let variants = [];
          batchtime' = BATCHTIME_WEEK * 2;
          expansions' = [(''AUTH'', ''noauth''), (''SSL'', ''ssl''), (''TOPOLOGY'', ''server'')];
          base_display = ''OCSP test'';
          versions = filter (\<lambda>v. v \<noteq> ''4.0'') ALL_VERSIONS
      in case for_loop
                (\<lambda>item variants.
                   case item of
                     [Str version, Str python] \<Rightarrow>
                       (let host = ''rhel8''
                        in case call_get_display_name [base_display, host, version, python] [] of
                             Inl e \<Rightarrow> Inl e
                           | Inr dn \<Rightarrow>
                              (case create_variant [''.ocsp''] dn (Some python) (Some version)
                                      (Some host)
                                      \<lparr>kw_expansions = Some expansions',
                                       kw_batchtime = Some batchtime', kw_tags = None\<rparr> of
                                 Inl e \<Rightarrow> Inl e
                               | Inr variant \<Rightarrow> Inr (variants @ [variant])))
                   | _ \<Rightarrow> Inl TypeError)
                (zip_cycle [map Str versions, map Str ALL_PYTHONS] PyNone) variants of
           Inl e \<Rightarrow> Inl e
         | Inr variants \<Rightarrow>
             for_loop
               (\<lambda>(host, version) variants.
                  let python = (if version = ''4.4'' then hd CPYTHONS else last CPYTHONS)
                  in case call_get_display_name [base_display, host, version, python] [] of
                       Inl e \<Rightarrow> Inl e
                     | Inr dn \<Rightarrow>
                        (case create_variant [''.ocsp-rsa !.ocsp-staple''] dn (Some python)
                                (Some version) (Some host)
                                \<lparr>kw_expansions = Some expansions',
                                 kw_batchtime = Some batchtime', kw_tags = None\<rparr> of
                           Inl e \<Rightarrow> Inl e
                         | Inr variant \<Rightarrow> Inr (variants @ [variant])))
               (List.product [''win64'', ''macos''] [''4.4'', ''8.0'']) variants)"

text \<open>
  \<open>create_server_variants\<close>. \<open>dict(AUTH=auth, SSL=ssl, ...)\<close> is the association list of
  its keywords in order, and \<open>python=python, **expansions\<close> puts \<open>python\<close> before them. The
  first assignment of each loop body, \<open>display_name = f"Test {host}"\<close>, is overwritten
  before it is read.
\<close>

definition create_server_variants :: "py_error + pydict BuildVariant list" where
  "create_server_variants =
     (let variants = [];
          host = ''rhel8''
      in case for_loop
                (\<lambda>(python, (auth, ssl)) variants.
                   let expansions' = [(''AUTH'', auth), (''SSL'', ssl), (''COVERAGE'', ''coverage'')]
                   in case call_get_display_name [''Test'', host]
                             ((''python'', python) # expansions') of
                        Inl e \<Rightarrow> Inl e
                      | Inr dn \<Rightarrow>
                         (case create_variant (map (\<lambda>t. ''.'' @ t) TOPOLOGIES) dn (Some python)
                                 None (Some host)
                                 \<lparr>kw_expansions = Some expansions', kw_batchtime = None,
                                  kw_tags = Some [''coverage_tag'']\<rparr> of
                            Inl e \<Rightarrow> Inl e
                          | Inr variant \<Rightarrow> Inr (variants @ [variant])))
                (List.product (MIN_MAX_PYTHON @ [last PYPYS]) AUTH_SSLS) variants of
           Inl e \<Rightarrow> Inl e
         | Inr variants \<Rightarrow>
            (case for_loop
                    (\<lambda>item variants.
                       case item of
                         [Str python, Tuple2 auth ssl, Str topology] \<Rightarrow>
                           (let expansions' = [(''AUTH'', auth), (''SSL'', ssl)]
                            in case call_get_display_name [''Test'', host]
                                      ((''python'', python) # expansions') of
                                 Inl e \<Rightarrow> Inl e
                               | Inr dn \<Rightarrow>
                                  (case create_variant [''.'' @ topology] dn (Some python) None
                                          (Some host)
                                          \<lparr>kw_expansions = Some expansions',
                                           kw_batchtime = None, kw_tags = None\<rparr> of
                                     Inl e \<Rightarrow> Inl e
                                   | Inr variant \<Rightarrow> Inr (variants @ [variant])))
                       | _ \<Rightarrow> Inl TypeError)
                    (zip_cycle [map Str (butlast (tl CPYTHONS) @ butlast PYPYS),
                                map (\<lambda>(auth, ssl). Tuple2 auth ssl) AUTH_SSLS,
                                map Str TOPOLOGIES] PyNone) variants of
               Inl e \<Rightarrow> Inl e
             | Inr variants \<Rightarrow>
                for_loop
                  (\<lambda>host variants.
                     for_loop
                       (\<lambda>(item, sync) variants.
                          case item of
                            [Str python, Tuple2 auth ssl, Str topology] \<Rightarrow>
                              (let test_suite =
                                     (if sync = ''sync'' then ''default'' else ''default_async'');
                                   expansions' = [(''AUTH'', auth), (''SSL'', ssl),
                                                  (''TEST_SUITES'', test_suite)]
                               in case call_get_display_name [''Test'', host]
                                         ((''python'', python) # expansions') of
                                    Inl e \<Rightarrow> Inl e
                                  | Inr dn \<Rightarrow>
                                     (case create_variant [''.'' @ topology] dn (Some python)
                                             None (Some host)
                                             \<lparr>kw_expansions = Some expansions',
                                              kw_batchtime = None, kw_tags = None\<rparr> of
                                        Inl e \<Rightarrow> Inl e
                                      | Inr variant \<Rightarrow> Inr (variants @ [variant])))
                          | _ \<Rightarrow> Inl TypeError)
                       (List.product
                          (zip_cycle [map Str MIN_MAX_PYTHON,
                                      map (\<lambda>(auth, ssl). Tuple2 auth ssl) AUTH_SSLS,
                                      map Str TOPOLOGIES] PyNone)
                          SYNCS)
                       variants)
                  [''macos'', ''macos-arm64'', ''win64'', ''win32''] variants))"

text \<open>
  The names and display names of the variants of \<open>create_server_variants\<close>, in order; that
  these are the ones it returns is lemma \<open>create_server_variants_names\<close>.
\<close>

definition server_variant_names :: "(string \<times> string) list" where
  "server_variant_names =
     [(''test-rhel8-py3.9-auth-ssl-cov'', ''Test RHEL8 py3.9 Auth SSL cov''),
      (''test-rhel8-py3.9-noauth-ssl-cov'', ''Test RHEL8 py3.9 NoAuth SSL cov''),
      (''test-rhel8-py3.9-noauth-nossl-cov'', ''Test RHEL8 py3.9 NoAuth NoSSL cov''),
      (''test-rhel8-py3.13-auth-ssl-cov'', ''Test RHEL8 py3.13 Auth SSL cov''),
      (''test-rhel8-py3.13-noauth-ssl-cov'', ''Test RHEL8 py3.13 NoAuth SSL cov''),
      (''test-rhel8-py3.13-noauth-nossl-cov'', ''Test RHEL8 py3.13 NoAuth NoSSL cov''),
      (''test-rhel8-pypy3.10-auth-ssl-cov'', ''Test RHEL8 pypy3.10 Auth SSL cov''),
      (''test-rhel8-pypy3.10-noauth-ssl-cov'', ''Test RHEL8 pypy3.10 NoAuth SSL cov''),
      (''test-rhel8-pypy3.10-noauth-nossl-cov'', ''Test RHEL8 pypy3.10 NoAuth NoSSL cov''),
      (''test-rhel8-py3.10-auth-ssl'', ''Test RHEL8 py3.10 Auth SSL''),
      (''test-rhel8-py3.11-noauth-ssl'', ''Test RHEL8 py3.11 NoAuth SSL''),
      (''test-rhel8-py3.12-noauth-nossl'', ''Test RHEL8 py3.12 NoAuth NoSSL''),
      (''test-rhel8-pypy3.9-auth-ssl'', ''Test RHEL8 pypy3.9 Auth SSL''),
      (''test-macos-py3.9-auth-ssl-sync'', ''Test macOS py3.9 Auth SSL Sync''),
      (''test-macos-py3.9-auth-ssl-async'', ''Test macOS py3.9 Auth SSL Async''),
      (''test-macos-py3.13-noauth-ssl-sync'', ''Test macOS py3.13 NoAuth SSL Sync''),
      (''test-macos-py3.13-noauth-ssl-async'', ''Test macOS py3.13 NoAuth SSL Async''),
      (''test-macos-py3.9-noauth-nossl-sync'', ''Test macOS py3.9 NoAuth NoSSL Sync''),
      (''test-macos-py3.9-noauth-nossl-async'', ''Test macOS py3.9 NoAuth NoSSL Async''),
      (''test-macos-arm64-py3.9-auth-ssl-sync'', ''Test macOS Arm64 py3.9 Auth SSL Sync''),
      (''test-macos-arm64-py3.9-auth-ssl-async'', ''Test macOS Arm64 py3.9 Auth SSL Async''),
      (''test-macos-arm64-py3.13-noauth-ssl-sync'',
       ''Test macOS Arm64 py3.13 NoAuth SSL Sync''),
      (''test-macos-arm64-py3.13-noauth-ssl-async'',
       ''Test macOS Arm64 py3.13 NoAuth SSL Async''),
      (''test-macos-arm64-py3.9-noauth-nossl-sync'',
       ''Test macOS Arm64 py3.9 NoAuth NoSSL Sync''),
      (''test-macos-arm64-py3.9-noauth-nossl-async'',
       ''Test macOS Arm64 py3.9 NoAuth NoSSL Async''),
      (''test-win64-py3.9-auth-ssl-sync'', ''Test Win64 py3.9 Auth SSL Sync''),
      (''test-win64-py3.9-auth-ssl-async'', ''Test Win64 py3.9 Auth SSL Async''),
      (''test-win64-py3.13-noauth-ssl-sync'', ''Test Win64 py3.13 NoAuth SSL Sync''),
      (''test-win64-py3.13-noauth-ssl-async'', ''Test Win64 py3.13 NoAuth SSL Async''),
      (''test-win64-py3.9-noauth-nossl-sync'', ''Test Win64 py3.9 NoAuth NoSSL Sync''),
      (''test-win64-py3.9-noauth-nossl-async'', ''Test Win64 py3.9 NoAuth NoSSL Async''),
      (''test-win32-py3.9-auth-ssl-sync'', ''Test Win32 py3.9 Auth SSL Sync''),
      (''test-win32-py3.9-auth-ssl-async'', ''Test Win32 py3.9 Auth SSL Async''),
      (''test-win32-py3.13-noauth-ssl-sync'', ''Test Win32 py3.13 NoAuth SSL Sync''),
      (''test-win32-py3.13-noauth-ssl-async'', ''Test Win32 py3.13 NoAuth SSL Async''),
      (''test-win32-py3.9-noauth-nossl-sync'', ''Test Win32 py3.9 NoAuth NoSSL Sync''),
      (''test-win32-py3.9-noauth-nossl-async'', ''Test Win32 py3.9 NoAuth NoSSL Async'')]"

subsection \<open>The store\<close>

text \<open>
  The functions above work on the values of the dictionaries. The script works on
  objects: \<open>_macos_expansions\<close> is one \<open>dict\<close> that four hosts share, \<open>create_variant\<close> gets a
  reference to the caller's \<open>dict\<close>, copies it and updates the copy in place. This section
  models the same code over a store of \<open>dict\<close> objects: an address is an index into the
  list of the objects allocated so far, and a reference is an address.
\<close>

type_synonym addr = nat

type_synonym heap = "pydict list"

definition alloc :: "heap \<Rightarrow> pydict \<Rightarrow> addr \<times> heap" where
  "alloc h d = (length h, h @ [d])"

definition deref :: "heap \<Rightarrow> addr \<Rightarrow> py_error + pydict" where
  "deref h a = (if a < length h then Inr (h ! a) else Inl InvalidReference)"

text \<open>\<open>d[k] = v\<close> and \<open>d.update(other)\<close> on the object at address \<open>a\<close>.\<close>

definition set_item :: "heap \<Rightarrow> addr \<Rightarrow> string \<Rightarrow> string \<Rightarrow> py_error + heap" where
  "set_item h a k v =
     (case deref h a of Inl e \<Rightarrow> Inl e | Inr d \<Rightarrow> Inr (h[a := dict_set d k v]))"

definition update_from :: "heap \<Rightarrow> addr \<Rightarrow> addr \<Rightarrow> py_error + heap" where
  "update_from h a other =
     (case deref h a of
        Inl e \<Rightarrow> Inl e
      | Inr d \<Rightarrow>
         (case deref h other of
            Inl e \<Rightarrow> Inl e
          | Inr d' \<Rightarrow> Inr (h[a := dict_update d d'])))"

text \<open>
  The store after the module has been loaded: \<open>_macos_expansions\<close> at address 0 and the
  \<open>dict()\<close> of the rhel8 host at address 1. The hosts hold references.
\<close>

definition module_heap :: heap where
  "module_heap = [[(''SKIP_CSOT_TESTS'', ''true'')], []]"

definition HOSTS_heap :: "(string \<times> addr Host) list" where
  "HOSTS_heap =
     [(''rhel8'', \<lparr>host_name = ''rhel8'', host_run_on = ''rhel87-small'',
                  host_display_name = ''RHEL8'', host_expansions = 1\<rparr>),
      (''win64'', \<lparr>host_name = ''win64'', host_run_on = ''windows-64-vsMulti-small'',
                  host_display_name = ''Win64'', host_expansions = 0\<rparr>),
      (''win32'', \<lparr>host_name = ''win32'', host_run_on = ''windows-64-vsMulti-small'',
                  host_display_name = ''Win32'', host_expansions = 0\<rparr>),
      (''macos'', \<lparr>host_name = ''macos'', host_run_on = ''macos-14'',
                  host_display_name = ''macOS'', host_expansions = 0\<rparr>),
      (''macos-arm64'', \<lparr>host_name = ''macos-arm64'', host_run_on = ''macos-14-arm64'',
                  host_display_name = ''macOS Arm64'', host_expansions = 0\<rparr>)]"

text \<open>
  \<open>create_variant\<close> over the store, statement by statement. \<open>setdefault\<close> stores a new empty
  \<open>dict\<close> when the caller gave no \<open>expansions\<close>; \<open>copy\<close> allocates the object that the rest of
  the function updates and that the variant refers to. The function returns the variant or
  raises, and leaves a store in both cases.
\<close>

definition create_variant_heap ::
  "heap \<Rightarrow> string list \<Rightarrow> string \<Rightarrow> string option \<Rightarrow> string option \<Rightarrow> string option \<Rightarrow>
   addr variant_kwargs \<Rightarrow> (py_error + addr BuildVariant) \<times> heap" where
  "create_variant_heap h task_names dn python version host kwargs =
     (let task_refs = task_names;
          (given, h0) = (case kw_expansions kwargs of None \<Rightarrow> alloc h [] | Some a \<Rightarrow> (a, h))
      in case deref h0 given of
           Inl e \<Rightarrow> (Inl e, h0)
         | Inr d \<Rightarrow>
            (let (expansions', h1) = alloc h0 d;
                 host' = (case truthy host of None \<Rightarrow> ''rhel8'' | Some x \<Rightarrow> x)
             in case map_of HOSTS_heap host' of
                  None \<Rightarrow> (Inl (KeyError host'), h1)
                | Some profile \<Rightarrow>
                   (let run_on' = [host_run_on profile];
                        name' = lower (replace (CHR '' '') ''-'' dn)
                    in case (case truthy python of
                               None \<Rightarrow> Inr h1
                             | Some p \<Rightarrow>
                                (case get_python_binary p host' of
                                   Inl e \<Rightarrow> Inl e
                                 | Inr binary \<Rightarrow>
                                     set_item h1 expansions' ''PYTHON_BINARY'' binary)) of
                         Inl e \<Rightarrow> (Inl e, h1)
                       | Inr h2 \<Rightarrow>
                          (case (case truthy version of
                                   None \<Rightarrow> Inr h2
                                 | Some v \<Rightarrow> set_item h2 expansions' ''VERSION'' v) of
                             Inl e \<Rightarrow> (Inl e, h2)
                           | Inr h3 \<Rightarrow>
                              (case update_from h3 expansions' (host_expansions profile) of
                                 Inl e \<Rightarrow> (Inl e, h3)
                               | Inr h4 \<Rightarrow>
                                  (case deref h4 expansions' of
                                     Inl e \<Rightarrow> (Inl e, h4)
                                   | Inr merged \<Rightarrow>
                                      (Inr \<lparr>name = name', display_name = dn, tasks = task_refs,
                                            expansions =
                                              (if merged = [] then None else Some expansions'),
                                            run_on = run_on',
                                            batchtime = kw_batchtime kwargs,
                                            tags = kw_tags kwargs\<rparr>, h4)))))))"

text \<open>What a variant, its keyword arguments and a host are once their references are read.\<close>

definition variant_value :: "heap \<Rightarrow> addr BuildVariant \<Rightarrow> py_error + pydict BuildVariant" where
  "variant_value h variant =
     (case expansions variant of
        None \<Rightarrow>
          Inr \<lparr>name = name variant, display_name = display_name variant,
               tasks = tasks variant, expansions = None, run_on = run_on variant,
               batchtime = batchtime variant, tags = tags variant\<rparr>
      | Some a \<Rightarrow>
         (case deref h a of
            Inl e \<Rightarrow> Inl e
          | Inr d \<Rightarrow>
             Inr \<lparr>name = name variant, display_name = display_name variant,
                  tasks = tasks variant, expansions = Some d, run_on = run_on variant,
                  batchtime = batchtime variant, tags = tags variant\<rparr>))"

definition kwargs_value :: "heap \<Rightarrow> addr variant_kwargs \<Rightarrow> py_error + pydict variant_kwargs" where
  "kwargs_value h kwargs =
     (case kw_expansions kwargs of
        None \<Rightarrow>
          Inr \<lparr>kw_expansions = None, kw_batchtime = kw_batchtime kwargs,
               kw_tags = kw_tags kwargs\<rparr>
      | Some a \<Rightarrow>
         (case deref h a of
            Inl e \<Rightarrow> Inl e
          | Inr d \<Rightarrow>
             Inr \<lparr>kw_expansions = Some d, kw_batchtime = kw_batchtime kwargs,
                  kw_tags = kw_tags kwargs\<rparr>))"

text \<open>The store holds the module's host tables: what \<open>HOSTS_heap\<close> refers to is there.\<close>

definition hosts_ok :: "heap \<Rightarrow> bool" where
  "hosts_ok h \<longleftrightarrow> deref h 0 = Inr macos_expansions \<and> deref h 1 = Inr []"

text \<open>
  \<open>create_server_variants\<close> over the store. The state of its loops is the list \<open>variants\<close>
  and the store; \<open>dict(AUTH=auth, ...)\<close> allocates, and \<open>**expansions\<close> reads the object. An
  exception ends the function, and the store it leaves is not looked at.
\<close>

definition create_server_variants_heap :: "heap \<Rightarrow> py_error + (addr BuildVariant list \<times> heap)" where
  "create_server_variants_heap h =
     (let variants = [];
          host = ''rhel8''
      in case for_loop
                (\<lambda>(python, (auth, ssl)) (variants, h).
                   let (expansions', h) =
                         alloc h [(''AUTH'', auth), (''SSL'', ssl), (''COVERAGE'', ''coverage'')]
                   in case deref h expansions' of
                        Inl e \<Rightarrow> Inl e
                      | Inr kw \<Rightarrow>
                         (case call_get_display_name [''Test'', host] ((''python'', python) # kw) of
                            Inl e \<Rightarrow> Inl e
                          | Inr dn \<Rightarrow>
                             (case create_variant_heap h (map (\<lambda>t. ''.'' @ t) TOPOLOGIES) dn
                                     (Some python) None (Some host)
                                     \<lparr>kw_expansions = Some expansions', kw_batchtime = None,
                                      kw_tags = Some [''coverage_tag'']\<rparr> of
                                (Inl e, _) \<Rightarrow> Inl e
                              | (Inr variant, h) \<Rightarrow> Inr (variants @ [variant], h))))
                (List.product (MIN_MAX_PYTHON @ [last PYPYS]) AUTH_SSLS) (variants, h) of
           Inl e \<Rightarrow> Inl e
         | Inr (variants, h) \<Rightarrow>
            (case for_loop
                    (\<lambda>item (variants, h).
                       case item of
                         [Str python, Tuple2 auth ssl, Str topology] \<Rightarrow>
                           (let (expansions', h) = alloc h [(''AUTH'', auth), (''SSL'', ssl)]
                            in case deref h expansions' of
                                 Inl e \<Rightarrow> Inl e
                               | Inr kw \<Rightarrow>
                                  (case call_get_display_name [''Test'', host]
                                          ((''python'', python) # kw) of
                                     Inl e \<Rightarrow> Inl e
                                   | Inr dn \<Rightarrow>
                                      (case create_variant_heap h [''.'' @ topology] dn
                                              (Some python) None (Some host)
                                              \<lparr>kw_expansions = Some expansions',
                                               kw_batchtime = None, kw_tags = None\<rparr> of
                                         (Inl e, _) \<Rightarrow> Inl e
                                       | (Inr variant, h) \<Rightarrow> Inr (variants @ [variant], h))))
                       | _ \<Rightarrow> Inl TypeError)
                    (zip_cycle [map Str (butlast (tl CPYTHONS) @ butlast PYPYS),
                                map (\<lambda>(auth, ssl). Tuple2 auth ssl) AUTH_SSLS,
                                map Str TOPOLOGIES] PyNone) (variants, h) of
               Inl e \<Rightarrow> Inl e
             | Inr (variants, h) \<Rightarrow>
                for_loop
                  (\<lambda>host (variants, h).
                     for_loop
                       (\<lambda>(item, sync) (variants, h).
                          case item of
                            [Str python, Tuple2 auth ssl, Str topology] \<Rightarrow>
                              (let test_suite =
                                     (if sync = ''sync'' then ''default'' else ''default_async'');
                                   (expansions', h) =
                                     alloc h [(''AUTH'', auth), (''SSL'', ssl),
                                              (''TEST_SUITES'', test_suite)]
                               in case deref h expansions' of
                                    Inl e \<Rightarrow> Inl e
                                  | Inr kw \<Rightarrow>
                                     (case call_get_display_name [''Test'', host]
                                             ((''python'', python) # kw) of
                                        Inl e \<Rightarrow> Inl e
                                      | Inr dn \<Rightarrow>
                                         (case create_variant_heap h [''.'' @ topology] dn
                                                 (Some python) None (Some host)
                                                 \<lparr>kw_expansions = Some expansions',
                                                  kw_batchtime = None, kw_tags = None\<rparr> of
                                            (Inl e, _) \<Rightarrow> Inl e
                                          | (Inr variant, h) \<Rightarrow>
                                              Inr (variants @ [variant], h))))
                          | _ \<Rightarrow> Inl TypeError)
                       (List.product
                          (zip_cycle [map Str MIN_MAX_PYTHON,
                                      map (\<lambda>(auth, ssl). Tuple2 auth ssl) AUTH_SSLS,
                                      map Str TOPOLOGIES] PyNone)
                          SYNCS)
                       (variants, h))
                  [''macos'', ''macos-arm64'', ''win64'', ''win32''] (variants, h)))"

text \<open>
  The state of a loop of \<open>create_server_variants_heap\<close> stands for the list of variants
  \<open>vals\<close>: the store holds the host tables, and the variants, read in it, are \<open>vals\<close>.
\<close>

definition variants_rel ::
  "addr BuildVariant list \<times> heap \<Rightarrow> pydict BuildVariant list \<Rightarrow> bool" where
  "variants_rel s vals \<longleftrightarrow>
     hosts_ok (snd s) \<and> map (variant_value (snd s)) (fst s) = map Inr vals"

section \<open>Properties\<close>

subsection \<open>Helper facts\<close>

lemma display_name_loop_append:
  "display_name_loop (xs @ ys) dn =
     (case display_name_loop xs dn of Inl e \<Rightarrow> Inl e | Inr dn' \<Rightarrow> display_name_loop ys dn')"
  by (induction xs dn rule: display_name_loop.induct) (auto split: sum.splits)

lemma display_name_loop_fails:
  "(key, v) \<in> set kwargs \<Longrightarrow> isl (axis_name key v) \<Longrightarrow> isl (display_name_loop kwargs dn)"
  by (induction kwargs dn rule: display_name_loop.induct) (auto split: sum.splits)

lemma axis_name_unrecognized:
  "key \<noteq> ''version'' \<Longrightarrow> key \<noteq> ''python'' \<Longrightarrow> lower key \<notin> fst ` set DISPLAY_LOOKUP \<Longrightarrow>
   axis_name key v = Inl (ValueError (''Missing display handling for '' @ key))"
proof -
  assume a: "key \<noteq> ''version''" "key \<noteq> ''python''" "lower key \<notin> fst ` set DISPLAY_LOOKUP"
  from a(3) have "map_of DISPLAY_LOOKUP (lower key) = None"
    by (simp add: map_of_eq_None_iff)
  with a(1,2) show ?thesis
    by (simp add: axis_name_def)
qed

subsection \<open>Interpreter paths\<close>

text \<open>
  Claim C7. \<open>get_python_binary("3.9", "rhel8")\<close> is \<open>/opt/python/3.9/bin/python3\<close> and
  \<open>get_python_binary("3.10", "win32")\<close> is \<open>C:/python/32/Python310/python.exe\<close>; on both
  Windows hosts, for every version, the path is the base root of the host (\<open>C:/python/32\<close>
  for win32, \<open>C:/python\<close> for win64), then \<open>/Python\<close>, the version without its dots, and
  \<open>/python.exe\<close>.
\<close>

theorem get_python_binary_examples:
  "get_python_binary ''3.9'' ''rhel8'' = Inr ''/opt/python/3.9/bin/python3''
   \<and> get_python_binary ''3.10'' ''win32'' = Inr ''C:/python/32/Python310/python.exe''
   \<and> get_python_binary python ''win32''
       = Inr (''C:/python/32/Python'' @ filter (\<lambda>c. c \<noteq> CHR ''.'') python @ ''/python.exe'')
   \<and> get_python_binary python ''win64''
       = Inr (''C:/python/Python'' @ filter (\<lambda>c. c \<noteq> CHR ''.'') python @ ''/python.exe'')"
proof -
  have strip: "replace (CHR ''.'') [] s = filter (\<lambda>c. c \<noteq> CHR ''.'') s" for s
    by (induction s) (simp_all add: replace_def)
  show ?thesis
    by (simp add: get_python_binary_def strip)
qed

subsection \<open>Display names\<close>

lemma display_name_loop_tokens:
  "map (\<lambda>(key, v). axis_name key v) kwargs = map Inr tokens \<Longrightarrow>
   display_name_loop kwargs dn = Inr (dn @ concat (map (\<lambda>t. '' '' @ t) tokens))"
proof (induction kwargs arbitrary: dn tokens)
  case Nil
  then show ?case by simp
next
  case (Cons b kwargs)
  obtain key v where b: "b = (key, v)" by (cases b)
  from Cons.prems b obtain t ts where ts: "tokens = t # ts" "axis_name key v = Inr t"
    "map (\<lambda>(key, v). axis_name key v) kwargs = map Inr ts"
    by (cases tokens) auto
  from Cons.IH [OF ts(3)] ts(1,2) b show ?case by simp
qed

text \<open>
  Claim C8. \<open>get_display_name("Test", "rhel8", python="3.9", auth="auth", ssl="ssl")\<close> is
  \<open>Test RHEL8 py3.9 Auth SSL\<close>. In general, for a registered host whose bindings all
  format, the result is the base, a space, the display label of the host, and then for each
  binding, in the order the caller gave them, a space and the token of the binding.
\<close>

theorem get_display_name_tokens:
  "call_get_display_name [''Test'', ''rhel8'']
       [(''python'', ''3.9''), (''auth'', ''auth''), (''ssl'', ''ssl'')]
     = Inr ''Test RHEL8 py3.9 Auth SSL''
   \<and> (map_of HOSTS host = Some h \<and> map (\<lambda>(key, v). axis_name key v) kwargs = map Inr tokens
        \<longrightarrow> get_display_name base host kwargs
            = Inr (base @ '' '' @ host_display_name h @ concat (map (\<lambda>t. '' '' @ t) tokens)))"
proof -
  have "call_get_display_name [''Test'', ''rhel8'']
       [(''python'', ''3.9''), (''auth'', ''auth''), (''ssl'', ''ssl'')]
     = Inr ''Test RHEL8 py3.9 Auth SSL''"
    by (simp add: call_get_display_name_def get_display_name_def HOSTS_def axis_name_def
        DISPLAY_LOOKUP_def lower_def lower_char_def)
  then show ?thesis
    by (simp add: get_display_name_def display_name_loop_tokens)
qed

theorem get_display_name_tokens_witness:
  "map_of HOSTS ''win64'' = Some \<lparr>host_name = ''win64'', host_run_on = ''windows-64-vsMulti-small'',
                  host_display_name = ''Win64'', host_expansions = macos_expansions\<rparr>
   \<and> map (\<lambda>(key, v). axis_name key v) [(''version'', ''latest''), (''version'', ''7.0''),
          (''python'', ''pypy3.9''), (''TEST_SUITES'', ''default_async'')]
       = map Inr [''latest'', ''v7.0'', ''pypy3.9'', ''Async'']
   \<and> get_display_name ''OCSP test'' ''win64'' [(''version'', ''latest''), (''version'', ''7.0''),
          (''python'', ''pypy3.9''), (''TEST_SUITES'', ''default_async'')]
       = Inr ''OCSP test Win64 latest v7.0 pypy3.9 Async''"
proof -
  have h: "map_of HOSTS ''win64'' = Some \<lparr>host_name = ''win64'',
      host_run_on = ''windows-64-vsMulti-small'', host_display_name = ''Win64'',
      host_expansions = macos_expansions\<rparr>"
    by (simp add: HOSTS_def)
  have t: "map (\<lambda>(key, v). axis_name key v) [(''version'', ''latest''), (''version'', ''7.0''),
          (''python'', ''pypy3.9''), (''TEST_SUITES'', ''default_async'')]
       = map Inr [''latest'', ''v7.0'', ''pypy3.9'', ''Async'']"
    by (simp add: axis_name_def DISPLAY_LOOKUP_def lower_def lower_char_def)
  from get_display_name_tokens [where host = "''win64''" and base = "''OCSP test''"
      and h = "\<lparr>host_name = ''win64'', host_run_on = ''windows-64-vsMulti-small'',
        host_display_name = ''Win64'', host_expansions = macos_expansions\<rparr>"
      and kwargs = "[(''version'', ''latest''), (''version'', ''7.0''),
          (''python'', ''pypy3.9''), (''TEST_SUITES'', ''default_async'')]"
      and tokens = "[''latest'', ''v7.0'', ''pypy3.9'', ''Async'']"] h t
  have "get_display_name ''OCSP test'' ''win64'' [(''version'', ''latest''), (''version'', ''7.0''),
          (''python'', ''pypy3.9''), (''TEST_SUITES'', ''default_async'')]
       = Inr (''OCSP test'' @ '' '' @ ''Win64''
              @ concat (map (\<lambda>t. '' '' @ t) [''latest'', ''v7.0'', ''pypy3.9'', ''Async'']))"
    by simp
  with h t show ?thesis by simp
qed

text \<open>
  Claim C9. A binding whose key is neither \<open>version\<close> nor \<open>python\<close> and whose lower-cased key
  is not a key of \<open>DISPLAY_LOOKUP\<close> makes \<open>get_display_name\<close> raise, whatever the other
  arguments are; when the host is registered and the bindings before it format, what it
  raises is the \<open>ValueError\<close> "Missing display handling for <key>".
\<close>

theorem get_display_name_unrecognized_axis:
  assumes "key \<noteq> ''version''" and "key \<noteq> ''python''"
    and "lower key \<notin> fst ` set DISPLAY_LOOKUP"
  shows "isl (get_display_name base host (pre @ (key, v) # post))
    \<and> (map_of HOSTS host = Some h
          \<and> display_name_loop pre (base @ '' '' @ host_display_name h) = Inr dn
        \<longrightarrow> get_display_name base host (pre @ (key, v) # post)
            = Inl (ValueError (''Missing display handling for '' @ key)))"
proof -
  have ax: "axis_name key v = Inl (ValueError (''Missing display handling for '' @ key))"
    using assms by (rule axis_name_unrecognized)
  have "isl (display_name_loop (pre @ (key, v) # post) d)" for d
    by (rule display_name_loop_fails [of key v]) (simp_all add: ax)
  then have fails: "isl (get_display_name base host (pre @ (key, v) # post))"
    by (simp add: get_display_name_def split: option.splits)
  have "get_display_name base host (pre @ (key, v) # post)
          = Inl (ValueError (''Missing display handling for '' @ key))"
    if "map_of HOSTS host = Some h"
      and "display_name_loop pre (base @ '' '' @ host_display_name h) = Inr dn"
    using that by (simp add: get_display_name_def display_name_loop_append ax)
  with fails show ?thesis by blast
qed

theorem get_display_name_unrecognized_axis_witness:
  "''Topology'' \<noteq> ''version'' \<and> ''Topology'' \<noteq> ''python''
   \<and> lower ''Topology'' \<notin> fst ` set DISPLAY_LOOKUP
   \<and> display_name_loop [(''python'', ''3.9'')] (''Test'' @ '' '' @ ''RHEL8'') = Inr ''Test RHEL8 py3.9''
   \<and> isl (get_display_name ''Test'' ''rhel8''
            ([(''python'', ''3.9'')] @ (''Topology'', ''server'') # [(''ssl'', ''ssl'')]))
   \<and> get_display_name ''Test'' ''rhel8''
        ([(''python'', ''3.9'')] @ (''Topology'', ''server'') # [(''ssl'', ''ssl'')])
       = Inl (ValueError ''Missing display handling for Topology'')"
proof -
  have k: "''Topology'' \<noteq> ''version''" "''Topology'' \<noteq> ''python''"
    "lower ''Topology'' \<notin> fst ` set DISPLAY_LOOKUP"
    by (simp_all add: lower_def lower_char_def DISPLAY_LOOKUP_def)
  have h: "map_of HOSTS ''rhel8'' = Some \<lparr>host_name = ''rhel8'', host_run_on = ''rhel87-small'',
                  host_display_name = ''RHEL8'', host_expansions = []\<rparr>"
    by (simp add: HOSTS_def)
  have p: "display_name_loop [(''python'', ''3.9'')] (''Test'' @ '' '' @ ''RHEL8'')
            = Inr ''Test RHEL8 py3.9''"
    by (simp add: axis_name_def)
  from get_display_name_unrecognized_axis [OF k, where base = "''Test''" and host = "''rhel8''"
      and pre = "[(''python'', ''3.9'')]" and v = "''server''" and post = "[(''ssl'', ''ssl'')]"
      and dn = "''Test RHEL8 py3.9''"
      and h = "\<lparr>host_name = ''rhel8'', host_run_on = ''rhel87-small'',
                  host_display_name = ''RHEL8'', host_expansions = []\<rparr>"] h p
  have "isl (get_display_name ''Test'' ''rhel8''
            ([(''python'', ''3.9'')] @ (''Topology'', ''server'') # [(''ssl'', ''ssl'')]))
   \<and> get_display_name ''Test'' ''rhel8''
        ([(''python'', ''3.9'')] @ (''Topology'', ''server'') # [(''ssl'', ''ssl'')])
       = Inl (ValueError ''Missing display handling for Topology'')"
    by simp
  with k p show ?thesis by blast
qed

subsection \<open>Cyclic zip\<close>

lemma longest_all_empty: "\<forall>xs \<in> set xss. xs = [] \<Longrightarrow> longest xss = 0"
  by (induction xss) (auto simp: longest_def)

lemma longest_tl: "longest (map tl xss) = longest xss - 1"
  by (induction xss) (auto simp: longest_def max_def)

lemma longest_ge: "xs \<in> set xss \<Longrightarrow> length xs \<le> longest xss"
  by (induction xss) (auto simp: longest_def max_def)

lemma longest_pos: "xs \<in> set xss \<Longrightarrow> xs \<noteq> [] \<Longrightarrow> 0 < longest xss"
  using longest_ge [of xs xss] by (cases xs) auto

lemma length_zip_longest: "length (zip_longest xss) = longest xss"
proof (induction xss rule: zip_longest.induct)
  case (1 iterables)
  show ?case
  proof (cases "\<forall>xs \<in> set iterables. xs = []")
    case True
    then show ?thesis by (simp add: zip_longest.simps longest_all_empty)
  next
    case False
    then have "0 < longest iterables" by (auto intro: longest_pos)
    with False 1 show ?thesis
      by (subst zip_longest.simps) (simp add: longest_tl)
  qed
qed

lemma length_zip_cycle_loop: "length (zip_cycle_loop ticks cycles d) = length ticks"
  by (induction ticks arbitrary: cycles) (auto simp: Let_def)

lemma zip_cycle_loop_nth:
  "i < length ticks \<Longrightarrow>
   zip_cycle_loop ticks cycles d ! i
     = map (\<lambda>c. case cycle_nth c i of Some x \<Rightarrow> x | None \<Rightarrow> d) cycles"
proof (induction ticks arbitrary: cycles i)
  case Nil
  then show ?case by simp
next
  case (Cons t ticks)
  show ?case
  proof (cases i)
    case 0
    then show ?thesis by (simp add: Let_def)
  next
    case (Suc k)
    with Cons.prems have "k < length ticks" by simp
    from Cons.IH [OF this] Suc show ?thesis by (simp add: Let_def o_def)
  qed
qed

lemma cycle_nth_empty: "cycle_nth ([], []) i = None"
  by (induction i) auto

text \<open>
  A cycle over \<open>xs\<close> that has \<open>k\<close> elements of the current pass behind it yields, at its
  \<open>i\<close>-th next call, the element of \<open>xs\<close> at index \<open>k + i\<close> modulo the length.
\<close>

lemma cycle_nth_drop:
  "xs \<noteq> [] \<Longrightarrow> k \<le> length xs \<Longrightarrow>
   cycle_nth (drop k xs, xs) i = Some (xs ! ((k + i) mod length xs))"
proof (induction i arbitrary: k)
  case 0
  show ?case
  proof (cases "k < length xs")
    case True
    then have "drop k xs = xs ! k # drop (Suc k) xs" by (simp add: Cons_nth_drop_Suc)
    with True show ?thesis by simp
  next
    case False
    with 0 have "k = length xs" by simp
    with 0 show ?thesis by (cases xs) auto
  qed
next
  case (Suc i)
  show ?case
  proof (cases "k < length xs")
    case True
    then have d: "drop k xs = xs ! k # drop (Suc k) xs" by (simp add: Cons_nth_drop_Suc)
    from True have "Suc k \<le> length xs" by simp
    from Suc.IH [OF Suc.prems(1) this] d show ?thesis by simp
  next
    case False
    with Suc.prems have k: "k = length xs" by simp
    from Suc.prems obtain y ys where xs: "xs = y # ys" by (cases xs) auto
    have one: "Suc 0 \<le> length xs" using xs by simp
    have "(k + Suc i) mod length xs = (Suc 0 + i) mod length xs"
      using k by (metis add_Suc_right add_Suc mod_add_self1 add_0)
    with Suc.IH [OF Suc.prems(1) one] k xs show ?thesis by simp
  qed
qed

lemma cycle_nth_cycle:
  "cycle_nth (cycle xs) i = (if xs = [] then None else Some (xs ! (i mod length xs)))"
  using cycle_nth_drop [of xs 0 i] by (simp add: cycle_def cycle_nth_empty)

text \<open>
  Claim C3. \<open>zip_cycle\<close> yields as many tuples as the longest input has elements (none for
  no input). Every tuple has one slot per input; slot \<open>j\<close> of tuple \<open>i\<close> is the element of
  input \<open>j\<close> at index \<open>i\<close> modulo the length of that input, and \<open>empty_default\<close> when input
  \<open>j\<close> is empty. The longest input is also the longest non-empty one, so an empty input
  does not change the number of tuples.
\<close>

theorem zip_cycle_spec:
  "length (zip_cycle iterables empty_default) = longest iterables
   \<and> (\<forall>i < longest iterables.
        length (zip_cycle iterables empty_default ! i) = length iterables
        \<and> (\<forall>j < length iterables.
             zip_cycle iterables empty_default ! i ! j
               = (if iterables ! j = [] then empty_default
                  else iterables ! j ! (i mod length (iterables ! j)))))"
  by (simp add: zip_cycle_def length_zip_longest length_zip_cycle_loop zip_cycle_loop_nth
      cycle_nth_cycle)

theorem zip_cycle_spec_witness:
  "(2::nat) < longest [[10, 20, 30], [40, 50], [], [60::nat]]
   \<and> (1::nat) < length [[10, 20, 30], [40, 50], [], [60::nat]]
   \<and> (2::nat) < length [[10, 20, 30], [40, 50], [], [60::nat]]
   \<and> length (zip_cycle [[10, 20, 30], [40, 50], [], [60::nat]] 0) = 3
   \<and> length (zip_cycle [[10, 20, 30], [40, 50], [], [60::nat]] 0 ! 2) = 4
   \<and> zip_cycle [[10, 20, 30], [40, 50], [], [60::nat]] 0 ! 2 ! 1 = 40
   \<and> zip_cycle [[10, 20, 30], [40, 50], [], [60::nat]] 7 ! 2 ! 2 = 7"
proof -
  let ?its = "[[10, 20, 30], [40, 50], [], [60::nat]]"
  have l: "(2::nat) < longest ?its" "(1::nat) < length ?its" "(2::nat) < length ?its"
    by (simp_all add: longest_def)
  have n: "length (zip_cycle ?its 0) = 3"
    using zip_cycle_spec [of ?its 0] by (simp add: longest_def)
  have r0: "length (zip_cycle ?its 0 ! 2) = length ?its
      \<and> (\<forall>j < length ?its. zip_cycle ?its 0 ! 2 ! j
            = (if ?its ! j = [] then 0 else ?its ! j ! (2 mod length (?its ! j))))"
    using zip_cycle_spec [of ?its 0] l(1) by blast
  have r7: "\<forall>j < length ?its. zip_cycle ?its 7 ! 2 ! j
            = (if ?its ! j = [] then 7 else ?its ! j ! (2 mod length (?its ! j)))"
    using zip_cycle_spec [of ?its 7] l(1) by blast
  from r0 l(2) have "zip_cycle ?its 0 ! 2 ! 1
      = (if ?its ! 1 = [] then 0 else ?its ! 1 ! (2 mod length (?its ! 1)))"
    by blast
  also have "\<dots> = 40" by code_simp
  finally have a: "zip_cycle ?its 0 ! 2 ! 1 = 40" .
  from r7 l(3) have "zip_cycle ?its 7 ! 2 ! 2
      = (if ?its ! 2 = [] then 7 else ?its ! 2 ! (2 mod length (?its ! 2)))"
    by blast
  also have "\<dots> = 7" by code_simp
  finally have b: "zip_cycle ?its 7 ! 2 ! 2 = 7" .
  from r0 have c: "length (zip_cycle ?its 0 ! 2) = 4" by simp
  from l n a b c show ?thesis by blast
qed

subsection \<open>The variant factory\<close>

lemma map_of_dict_set: "map_of (dict_set d k v) = (map_of d)(k \<mapsto> v)"
  by (induction d k v rule: dict_set.induct) auto

lemma dict_set_not_Nil: "dict_set d k v \<noteq> []"
  by (induction d k v rule: dict_set.induct) (auto split: if_splits)

text \<open>
  Claim C6. Without caller expansions, python and version, on rhel8 (given or by default),
  \<open>create_variant\<close> returns a variant whose \<open>expansions\<close> field is absent; so it does when
  the caller passes an empty mapping.
\<close>

theorem create_variant_omits_empty_expansions:
  "create_variant task_names dn None None (Some ''rhel8'')
       \<lparr>kw_expansions = None, kw_batchtime = b, kw_tags = t\<rparr>
     = Inr \<lparr>name = lower (replace (CHR '' '') ''-'' dn), display_name = dn,
            tasks = task_names, expansions = None, run_on = [''rhel87-small''],
            batchtime = b, tags = t\<rparr>
   \<and> create_variant task_names dn None None None
       \<lparr>kw_expansions = None, kw_batchtime = b, kw_tags = t\<rparr>
     = Inr \<lparr>name = lower (replace (CHR '' '') ''-'' dn), display_name = dn,
            tasks = task_names, expansions = None, run_on = [''rhel87-small''],
            batchtime = b, tags = t\<rparr>
   \<and> create_variant task_names dn None None (Some ''rhel8'')
       \<lparr>kw_expansions = Some [], kw_batchtime = b, kw_tags = t\<rparr>
     = Inr \<lparr>name = lower (replace (CHR '' '') ''-'' dn), display_name = dn,
            tasks = task_names, expansions = None, run_on = [''rhel87-small''],
            batchtime = b, tags = t\<rparr>"
  by (simp add: create_variant_def HOSTS_def dict_update_def)

lemma map_of_dict_update:
  "distinct (map fst other) \<Longrightarrow> map_of (dict_update d other) = map_of d ++ map_of other"
proof (induction other arbitrary: d)
  case Nil
  then show ?case by (simp add: dict_update_def)
next
  case (Cons b other)
  obtain k v where b: "b = (k, v)" by (cases b)
  from Cons.prems b have k: "k \<notin> dom (map_of other)" and d: "distinct (map fst other)"
    by (auto simp: dom_map_of_conv_image_fst)
  have "map_of (dict_update d (b # other)) = map_of (dict_update (dict_set d k v) other)"
    by (simp add: dict_update_def b)
  also have "\<dots> = (map_of d)(k \<mapsto> v) ++ map_of other"
    by (simp only: Cons.IH [OF d] map_of_dict_set)
  also have "\<dots> = map_of d ++ map_of (b # other)"
    using k by (auto simp: b map_add_def fun_eq_iff split: option.splits)
  finally show ?case .
qed

lemma HOSTS_expansions_distinct:
  "map_of HOSTS h = Some profile \<Longrightarrow> distinct (map fst (host_expansions profile))"
  by (auto simp: HOSTS_def macos_expansions_def split: if_splits)

text \<open>
  Claim C1, as the code has it. The expansions of the variant are the caller's expansions,
  then the \<open>PYTHON_BINARY\<close> entry when a python is given, then the \<open>VERSION\<close> entry when a
  version is given, then the default expansions of the host, each overriding what comes
  before it. So a key of the host defaults has the host's value in the result, also when
  the caller supplied a value for it.
\<close>

theorem create_variant_expansions_merge:
  assumes "create_variant task_names dn python version host kwargs = Inr variant"
    and "map_of HOSTS (case truthy host of None \<Rightarrow> ''rhel8'' | Some h \<Rightarrow> h) = Some profile"
  shows "map_of (expansions_of variant)
       = map_of (case kw_expansions kwargs of None \<Rightarrow> [] | Some d \<Rightarrow> d)
         ++ (case truthy python of
               None \<Rightarrow> Map.empty
             | Some p \<Rightarrow>
                (case get_python_binary p (case truthy host of None \<Rightarrow> ''rhel8'' | Some h \<Rightarrow> h) of
                   Inl e \<Rightarrow> Map.empty
                 | Inr binary \<Rightarrow> [''PYTHON_BINARY'' \<mapsto> binary]))
         ++ (case truthy version of None \<Rightarrow> Map.empty | Some v \<Rightarrow> [''VERSION'' \<mapsto> v])
         ++ map_of (host_expansions profile)
     \<and> (\<forall>k x. map_of (host_expansions profile) k = Some x
            \<longrightarrow> map_of (expansions_of variant) k = Some x)"
proof -
  let ?caller = "case kw_expansions kwargs of None \<Rightarrow> [] | Some d \<Rightarrow> d"
  let ?host = "case truthy host of None \<Rightarrow> ''rhel8'' | Some h \<Rightarrow> h"
  let ?py = "case truthy python of
               None \<Rightarrow> Map.empty
             | Some p \<Rightarrow>
                (case get_python_binary p ?host of
                   Inl e \<Rightarrow> Map.empty
                 | Inr binary \<Rightarrow> [''PYTHON_BINARY'' \<mapsto> binary])"
  let ?ver = "case truthy version of None \<Rightarrow> Map.empty | Some v \<Rightarrow> [''VERSION'' \<mapsto> v]"
  note dist = HOSTS_expansions_distinct [OF assms(2)]
  obtain e1 where e1: "(case truthy python of
                        None \<Rightarrow> Inr ?caller
                      | Some p \<Rightarrow>
                          (case get_python_binary p ?host of
                             Inl e \<Rightarrow> Inl e
                           | Inr binary \<Rightarrow> Inr (dict_set ?caller ''PYTHON_BINARY'' binary)))
                     = Inr e1"
    using assms by (auto simp: create_variant_def Let_def split: sum.splits)
  then have m1: "map_of e1 = map_of ?caller ++ ?py"
    by (auto simp: map_of_dict_set split: option.splits sum.splits)
  define e2 where "e2 = (case truthy version of
                           None \<Rightarrow> e1 | Some v \<Rightarrow> dict_set e1 ''VERSION'' v)"
  have m2: "map_of e2 = map_of e1 ++ ?ver"
    by (auto simp: e2_def map_of_dict_set split: option.splits)
  have "expansions variant
          = (if dict_update e2 (host_expansions profile) = [] then None
             else Some (dict_update e2 (host_expansions profile)))"
    using assms e1 by (auto simp: create_variant_def Let_def e2_def split: sum.splits)
  then have "map_of (expansions_of variant) = map_of (dict_update e2 (host_expansions profile))"
    by (simp add: expansions_of_def)
  then have eq: "map_of (expansions_of variant)
      = map_of ?caller ++ ?py ++ ?ver ++ map_of (host_expansions profile)"
    by (simp add: map_of_dict_update [OF dist] m1 m2)
  then have "\<forall>k x. map_of (host_expansions profile) k = Some x
            \<longrightarrow> map_of (expansions_of variant) k = Some x"
    by (simp add: map_add_Some_iff)
  with eq show ?thesis by blast
qed

theorem create_variant_expansions_merge_witness:
  "create_variant [''.ocsp''] ''OCSP test macOS v4.4 py3.9'' (Some ''3.9'') (Some ''4.4'')
       (Some ''macos'')
       \<lparr>kw_expansions = Some [(''AUTH'', ''noauth''), (''SKIP_CSOT_TESTS'', ''false'')],
        kw_batchtime = None, kw_tags = None\<rparr>
     = Inr \<lparr>name = ''ocsp-test-macos-v4.4-py3.9'', display_name = ''OCSP test macOS v4.4 py3.9'',
            tasks = [''.ocsp''],
            expansions = Some [(''AUTH'', ''noauth''), (''SKIP_CSOT_TESTS'', ''true''),
              (''PYTHON_BINARY'', ''/Library/Frameworks/Python.Framework/Versions/3.9/bin/python3''),
              (''VERSION'', ''4.4'')],
            run_on = [''macos-14''], batchtime = None, tags = None\<rparr>
   \<and> map_of HOSTS (case truthy (Some ''macos'') of None \<Rightarrow> ''rhel8'' | Some h \<Rightarrow> h)
       = Some \<lparr>host_name = ''macos'', host_run_on = ''macos-14'',
                host_display_name = ''macOS'', host_expansions = macos_expansions\<rparr>
   \<and> map_of macos_expansions ''SKIP_CSOT_TESTS'' = Some ''true''
   \<and> map_of [(''AUTH'', ''noauth''), (''SKIP_CSOT_TESTS'', ''true''),
              (''PYTHON_BINARY'', ''/Library/Frameworks/Python.Framework/Versions/3.9/bin/python3''),
              (''VERSION'', ''4.4'')] ''SKIP_CSOT_TESTS'' = Some ''true''"
proof -
  let ?variant = "\<lparr>name = ''ocsp-test-macos-v4.4-py3.9'',
            display_name = ''OCSP test macOS v4.4 py3.9'', tasks = [''.ocsp''],
            expansions = Some [(''AUTH'', ''noauth''), (''SKIP_CSOT_TESTS'', ''true''),
              (''PYTHON_BINARY'', ''/Library/Frameworks/Python.Framework/Versions/3.9/bin/python3''),
              (''VERSION'', ''4.4'')],
            run_on = [''macos-14''], batchtime = None, tags = None\<rparr>"
  let ?profile = "\<lparr>host_name = ''macos'', host_run_on = ''macos-14'',
                host_display_name = ''macOS'', host_expansions = macos_expansions\<rparr>"
  have c: "create_variant [''.ocsp''] ''OCSP test macOS v4.4 py3.9'' (Some ''3.9'') (Some ''4.4'')
       (Some ''macos'')
       \<lparr>kw_expansions = Some [(''AUTH'', ''noauth''), (''SKIP_CSOT_TESTS'', ''false'')],
        kw_batchtime = None, kw_tags = None\<rparr> = Inr ?variant"
    by (simp add: create_variant_def HOSTS_def get_python_binary_def dict_update_def
        macos_expansions_def replace_def lower_def lower_char_def)
  have h: "map_of HOSTS (case truthy (Some ''macos'') of None \<Rightarrow> ''rhel8'' | Some h \<Rightarrow> h)
       = Some ?profile"
    by (simp add: HOSTS_def)
  have k: "map_of (host_expansions ?profile) ''SKIP_CSOT_TESTS'' = Some ''true''"
    by (simp add: macos_expansions_def)
  from create_variant_expansions_merge [OF c h] k
  have "map_of (expansions_of ?variant) ''SKIP_CSOT_TESTS'' = Some ''true''"
    by blast
  with c h k show ?thesis by (simp add: expansions_of_def)
qed

text \<open>
  The claim as the specification words it, with the caller's value taking precedence, fails:
  a caller that sets \<open>SKIP_CSOT_TESTS\<close> to \<open>false\<close> on macos gets \<open>true\<close>, the host default.
\<close>

theorem create_variant_caller_precedence_counterexample:
  "create_variant [] ''x'' None None (Some ''macos'')
       \<lparr>kw_expansions = Some [(''SKIP_CSOT_TESTS'', ''false'')],
        kw_batchtime = None, kw_tags = None\<rparr>
     = Inr \<lparr>name = ''x'', display_name = ''x'', tasks = [],
            expansions = Some [(''SKIP_CSOT_TESTS'', ''true'')],
            run_on = [''macos-14''], batchtime = None, tags = None\<rparr>"
  by (simp add: create_variant_def HOSTS_def dict_update_def macos_expansions_def
      replace_def lower_def lower_char_def)

subsection \<open>The OCSP variants\<close>

text \<open>
  Claim C2 says that \<open>create_ocsp_variants\<close> returns the list of the OCSP variants. It does
  not return: the first iteration of its first loop calls \<open>get_display_name\<close> with four
  positional arguments, the function takes two, and the call raises \<open>TypeError\<close>.
\<close>

theorem create_ocsp_variants_raises: "create_ocsp_variants = Inl TypeError"
  by code_simp

subsection \<open>The server variants\<close>

lemma create_server_variants_names:
  "map_sum id (map (\<lambda>variant. (name variant, display_name variant))) create_server_variants
     = Inr server_variant_names"
  by code_simp

lemma create_server_variants_returns: "\<exists>variants. create_server_variants = Inr variants"
proof (cases create_server_variants)
  case (Inl e)
  from create_server_variants_names show ?thesis unfolding Inl by simp
next
  case (Inr variants)
  then show ?thesis by blast
qed

lemma server_variant_names_facts:
  "length server_variant_names = 37"
  "distinct (map fst server_variant_names)"
  "map fst server_variant_names
     = map (\<lambda>p. lower (replace (CHR '' '') ''-'' (snd p))) server_variant_names"
  by code_simp+

text \<open>
  Claim C4. \<open>create_server_variants\<close> returns 37 variants; the name of each is its display
  name in lower case with a hyphen for every space, and no two of the names are equal.
\<close>

theorem create_server_variants_names_distinct:
  "\<exists>variants. create_server_variants = Inr variants
     \<and> length variants = 37
     \<and> map name variants
         = map (\<lambda>variant. lower (replace (CHR '' '') ''-'' (display_name variant))) variants
     \<and> distinct (map name variants)"
proof -
  note ev = create_server_variants_names
  obtain variants where v: "create_server_variants = Inr variants"
    using create_server_variants_returns by blast
  from ev [unfolded v] have p: "map (\<lambda>variant. (name variant, display_name variant)) variants
      = server_variant_names"
    by simp
  have n: "map name variants = map fst server_variant_names"
    and d: "map display_name variants = map snd server_variant_names"
    by (simp_all add: p [symmetric] o_def)
  have l: "length variants = 37"
    using server_variant_names_facts(1) by (simp add: p [symmetric])
  have dist: "distinct (map name variants)"
    using server_variant_names_facts(2) by (simp add: n)
  have "map name variants
         = map (\<lambda>variant. lower (replace (CHR '' '') ''-'' (display_name variant))) variants"
    using server_variant_names_facts(3) by (simp add: p [symmetric] o_def)
  with v l dist show ?thesis by blast
qed

subsection \<open>The store and the values\<close>

lemma deref_Inr_iff: "deref h a = Inr d \<longleftrightarrow> a < length h \<and> h ! a = d"
  by (auto simp: deref_def)

lemma deref_valid: "a < length h \<Longrightarrow> deref h a = Inr (h ! a)"
  by (simp add: deref_def)

lemma deref_append_old: "a < length h \<Longrightarrow> deref (h @ ext) a = Inr (h ! a)"
  by (simp add: deref_def nth_append)

lemma deref_append_new: "deref (h @ [d]) (length h) = Inr d"
  by (simp add: deref_def)

lemma set_item_new: "set_item (h @ [d]) (length h) k v = Inr (h @ [dict_set d k v])"
  by (simp add: set_item_def deref_append_new)

lemma update_from_new:
  "b < length h \<Longrightarrow>
   update_from (h @ [d]) (length h) b = Inr (h @ [dict_update d (h ! b)])"
  by (simp add: update_from_def deref_append_new deref_append_old)

lemma hosts_heap_value:
  "hosts_ok h \<Longrightarrow>
   (case map_of HOSTS_heap n of
      None \<Rightarrow> map_of HOSTS n = None
    | Some p \<Rightarrow>
        host_expansions p < length h
        \<and> map_of HOSTS n
            = Some \<lparr>host_name = host_name p, host_run_on = host_run_on p,
                    host_display_name = host_display_name p,
                    host_expansions = h ! host_expansions p\<rparr>)"
  by (auto simp: hosts_ok_def deref_Inr_iff HOSTS_def HOSTS_heap_def)

lemma kwargs_value_cases:
  assumes "kwargs_value h kwargs = Inr kwargs'"
  shows "kw_batchtime kwargs' = kw_batchtime kwargs \<and> kw_tags kwargs' = kw_tags kwargs
    \<and> (case kw_expansions kwargs of
          None \<Rightarrow> kw_expansions kwargs' = None
        | Some a \<Rightarrow> a < length h \<and> kw_expansions kwargs' = Some (h ! a))"
  using assms
  by (auto simp: kwargs_value_def deref_def split: option.splits sum.splits if_splits)

text \<open>
  What \<open>create_variant_heap\<close> returns, in one equation: the store grows by the copy (after
  the empty \<open>dict\<close> of \<open>setdefault\<close>, if the caller gave none), nothing else changes, and the
  copy holds what \<open>create_variant\<close> computes from the values.
\<close>

lemma create_variant_heap_eq:
  assumes ok: "hosts_ok h"
    and kw: "kwargs_value h kwargs = Inr kwargs'"
  shows "create_variant_heap h task_names dn python version host kwargs
     = (let h0 = (case kw_expansions kwargs of None \<Rightarrow> h @ [[]] | Some a \<Rightarrow> h)
        in case create_variant task_names dn python version host kwargs' of
             Inl e \<Rightarrow>
               (Inl e, h0 @ [case kw_expansions kwargs' of None \<Rightarrow> [] | Some d \<Rightarrow> d])
           | Inr v \<Rightarrow>
               (Inr \<lparr>name = name v, display_name = display_name v, tasks = tasks v,
                     expansions = map_option (\<lambda>d. length h0) (expansions v),
                     run_on = run_on v, batchtime = batchtime v, tags = tags v\<rparr>,
                h0 @ [expansions_of v]))"
proof -
  let ?host = "case truthy host of None \<Rightarrow> ''rhel8'' | Some x \<Rightarrow> x"
  define h0 where "h0 = (case kw_expansions kwargs of None \<Rightarrow> h @ [[]] | Some a \<Rightarrow> h)"
  define d0 where "d0 = (case kw_expansions kwargs' of None \<Rightarrow> [] | Some d \<Rightarrow> d)"
  define given where "given = (case kw_expansions kwargs of None \<Rightarrow> length h | Some a \<Rightarrow> a)"
  note k = kwargs_value_cases [OF kw]
  have g: "(case kw_expansions kwargs of None \<Rightarrow> alloc h [] | Some a \<Rightarrow> (a, h)) = (given, h0)"
    by (simp add: given_def h0_def alloc_def split: option.split)
  have dg: "deref h0 given = Inr d0"
    using k by (auto simp: given_def h0_def d0_def deref_append_new deref_valid
        split: option.splits)
  have old: "b < length h \<Longrightarrow> b < length h0 \<and> h0 ! b = h ! b" for b
    by (simp add: h0_def nth_append split: option.split)
  note hv = hosts_heap_value [OF ok, of ?host]
  have L: "create_variant_heap h task_names dn python version host kwargs
     = (case map_of HOSTS_heap ?host of
          None \<Rightarrow> (Inl (KeyError ?host), h0 @ [d0])
        | Some profile \<Rightarrow>
           (case (case truthy python of
                    None \<Rightarrow> Inr d0
                  | Some p \<Rightarrow>
                     (case get_python_binary p ?host of
                        Inl e \<Rightarrow> Inl e
                      | Inr binary \<Rightarrow> Inr (dict_set d0 ''PYTHON_BINARY'' binary))) of
              Inl e \<Rightarrow> (Inl e, h0 @ [d0])
            | Inr e1 \<Rightarrow>
               (let e2 = (case truthy version of None \<Rightarrow> e1
                          | Some v \<Rightarrow> dict_set e1 ''VERSION'' v);
                    e3 = dict_update e2 (h ! host_expansions profile)
                in (Inr \<lparr>name = lower (replace (CHR '' '') ''-'' dn), display_name = dn,
                         tasks = task_names,
                         expansions = (if e3 = [] then None else Some (length h0)),
                         run_on = [host_run_on profile],
                         batchtime = kw_batchtime kwargs, tags = kw_tags kwargs\<rparr>,
                    h0 @ [e3]))))"
  proof (cases "map_of HOSTS_heap ?host")
    case None
    then show ?thesis
      by (simp add: create_variant_heap_def g dg alloc_def Let_def)
  next
    case (Some p)
    with hv have "host_expansions p < length h" by simp
    from old [OF this] have p: "host_expansions p < length h0"
      "h0 ! host_expansions p = h ! host_expansions p" by simp_all
    show ?thesis
      by (simp add: create_variant_heap_def g dg alloc_def Let_def Some set_item_new
          update_from_new [OF p(1)] p(2) deref_append_new
          split: option.split sum.split)
  qed
  have R: "create_variant task_names dn python version host kwargs'
     = (case map_of HOSTS_heap ?host of
          None \<Rightarrow> Inl (KeyError ?host)
        | Some profile \<Rightarrow>
           (case (case truthy python of
                    None \<Rightarrow> Inr d0
                  | Some p \<Rightarrow>
                     (case get_python_binary p ?host of
                        Inl e \<Rightarrow> Inl e
                      | Inr binary \<Rightarrow> Inr (dict_set d0 ''PYTHON_BINARY'' binary))) of
              Inl e \<Rightarrow> Inl e
            | Inr e1 \<Rightarrow>
               (let e2 = (case truthy version of None \<Rightarrow> e1
                          | Some v \<Rightarrow> dict_set e1 ''VERSION'' v);
                    e3 = dict_update e2 (h ! host_expansions profile)
                in Inr \<lparr>name = lower (replace (CHR '' '') ''-'' dn), display_name = dn,
                         tasks = task_names,
                         expansions = (if e3 = [] then None else Some e3),
                         run_on = [host_run_on profile],
                         batchtime = kw_batchtime kwargs, tags = kw_tags kwargs\<rparr>)))"
  proof (cases "map_of HOSTS_heap ?host")
    case None
    with hv show ?thesis
      by (simp add: create_variant_def d0_def Let_def)
  next
    case (Some p)
    with hv k show ?thesis
      by (simp add: create_variant_def d0_def Let_def split: option.split sum.split)
  qed
  show ?thesis
    unfolding L R h0_def [symmetric] d0_def [symmetric]
    by (simp add: Let_def expansions_of_def split: option.split sum.split)
qed

lemma hosts_ok_append: "hosts_ok h \<Longrightarrow> hosts_ok (h @ ext)"
  by (auto simp: hosts_ok_def deref_Inr_iff nth_append)

lemma variant_value_append:
  "variant_value h x = Inr v \<Longrightarrow> variant_value (h @ ext) x = Inr v"
  by (auto simp: variant_value_def deref_def nth_append split: option.splits if_splits)

lemma variants_rel_append:
  assumes "variants_rel (variants, h) vals"
  shows "map (variant_value (h @ ext)) variants = map Inr vals"
proof -
  from assms have m: "map (variant_value h) variants = map Inr vals"
    by (simp add: variants_rel_def)
  have "variant_value (h @ ext) x = Inr v" if "x \<in> set variants" "variant_value h x = Inr v"
    for x v
    using that(2) by (rule variant_value_append)
  show ?thesis
  proof (rule nth_equalityI)
    show "length (map (variant_value (h @ ext)) variants) = length (map Inr vals)"
      using m by (metis length_map)
  next
    fix i assume "i < length (map (variant_value (h @ ext)) variants)"
    then have i: "i < length variants" by simp
    from m have "map (variant_value h) variants ! i = map Inr vals ! i" by simp
    moreover from m have "length vals = length variants" by (metis length_map)
    ultimately have "variant_value h (variants ! i) = Inr (vals ! i)" using i by simp
    then have "variant_value (h @ ext) (variants ! i) = Inr (vals ! i)"
      by (rule variant_value_append)
    with i \<open>length vals = length variants\<close>
    show "map (variant_value (h @ ext)) variants ! i = map Inr vals ! i" by simp
  qed
qed

text \<open>
  One iteration of a loop of \<open>create_server_variants\<close>, from the allocation of \<open>expansions\<close>
  on: over the store it does what it does over the values.
\<close>

lemma variant_step_rel:
  assumes rel: "variants_rel (variants, h) vals"
  shows "rel_sum (=) variants_rel
     (case deref (h @ [d]) (length h) of
        Inl e \<Rightarrow> Inl e
      | Inr kw \<Rightarrow>
         (case call_get_display_name args (b # kw) of
            Inl e \<Rightarrow> Inl e
          | Inr dn \<Rightarrow>
             (case create_variant_heap (h @ [d]) task_names dn python version host
                     \<lparr>kw_expansions = Some (length h), kw_batchtime = bt, kw_tags = tg\<rparr> of
                (Inl e, _) \<Rightarrow> Inl e
              | (Inr variant, h') \<Rightarrow> Inr (variants @ [variant], h'))))
     (case call_get_display_name args (b # d) of
        Inl e \<Rightarrow> Inl e
      | Inr dn \<Rightarrow>
         (case create_variant task_names dn python version host
                 \<lparr>kw_expansions = Some d, kw_batchtime = bt, kw_tags = tg\<rparr> of
            Inl e \<Rightarrow> Inl e
          | Inr variant \<Rightarrow> Inr (vals @ [variant])))"
proof (cases "call_get_display_name args (b # d)")
  case (Inl e)
  then show ?thesis by (simp add: deref_append_new)
next
  case (Inr dn)
  from rel have ok: "hosts_ok (h @ [d])"
    by (simp add: variants_rel_def hosts_ok_append)
  have kw: "kwargs_value (h @ [d])
              \<lparr>kw_expansions = Some (length h), kw_batchtime = bt, kw_tags = tg\<rparr>
            = Inr \<lparr>kw_expansions = Some d, kw_batchtime = bt, kw_tags = tg\<rparr>"
    by (simp add: kwargs_value_def deref_append_new)
  note eq = create_variant_heap_eq [OF ok kw, of task_names dn python version host]
  show ?thesis
  proof (cases "create_variant task_names dn python version host
                 \<lparr>kw_expansions = Some d, kw_batchtime = bt, kw_tags = tg\<rparr>")
    case (Inl e)
    with Inr eq show ?thesis by (simp add: deref_append_new)
  next
    case v: (Inr v)
    let ?h' = "(h @ [d]) @ [expansions_of v]"
    let ?variant = "\<lparr>name = name v, display_name = display_name v, tasks = tasks v,
                     expansions = map_option (\<lambda>d'. Suc (length h)) (expansions v),
                     run_on = run_on v, batchtime = batchtime v, tags = tags v\<rparr>"
    have new: "variant_value ?h' ?variant = Inr v"
      by (cases v) (auto simp: variant_value_def expansions_of_def deref_def nth_append
          split: option.splits)
    have old: "map (variant_value ?h') variants = map Inr vals"
      using variants_rel_append [OF rel, of "[d] @ [expansions_of v]"] by simp
    from rel have "hosts_ok h" by (simp add: variants_rel_def)
    then have "hosts_ok ?h'" using hosts_ok_append [of h "[d, expansions_of v]"] by simp
    then have "variants_rel (variants @ [?variant], ?h') (vals @ [v])"
      using new old by (simp add: variants_rel_def)
    with Inr v eq show ?thesis by (simp add: deref_append_new)
  qed
qed

lemma for_loop_rel:
  assumes step: "\<And>x s t. R s t \<Longrightarrow> rel_sum (=) R (f x s) (g x t)"
    and "R s t"
  shows "rel_sum (=) R (for_loop f xs s) (for_loop g xs t)"
  using assms(2)
proof (induction xs arbitrary: s t)
  case Nil
  then show ?case by simp
next
  case (Cons x xs)
  from step [OF Cons.prems, of x] Cons.IH show ?case
    by (cases "f x s"; cases "g x t") auto
qed

lemma then_rel:
  assumes "rel_sum (=) R a b"
    and "\<And>s t. R s t \<Longrightarrow> rel_sum (=) R (k s) (k' t)"
  shows "rel_sum (=) R (case a of Inl e \<Rightarrow> Inl e | Inr s \<Rightarrow> k s)
                       (case b of Inl e \<Rightarrow> Inl e | Inr t \<Rightarrow> k' t)"
  using assms by (cases a; cases b) auto

text \<open>The bodies of the three loops, with what varies between them as parameters.\<close>

lemma product_body_rel:
  assumes "variants_rel s t"
  shows "rel_sum (=) variants_rel
      ((case x of (python, auth, ssl) \<Rightarrow> \<lambda>(variants, h).
            case alloc h (da auth ssl) of
              (expansions', h) \<Rightarrow>
                case deref h expansions' of
                  Inl e \<Rightarrow> Inl e
                | Inr kw \<Rightarrow>
                   (case call_get_display_name args ((''python'', python) # kw) of
                      Inl e \<Rightarrow> Inl e
                    | Inr dn \<Rightarrow>
                       (case create_variant_heap h tn dn (Some python) None hst
                               \<lparr>kw_expansions = Some expansions', kw_batchtime = bt,
                                kw_tags = tg\<rparr> of
                          (Inl e, _) \<Rightarrow> Inl e
                        | (Inr variant, h) \<Rightarrow> Inr (variants @ [variant], h)))) s)
      ((case x of (python, auth, ssl) \<Rightarrow> \<lambda>variants.
            case call_get_display_name args ((''python'', python) # da auth ssl) of
              Inl e \<Rightarrow> Inl e
            | Inr dn \<Rightarrow>
               (case create_variant tn dn (Some python) None hst
                       \<lparr>kw_expansions = Some (da auth ssl), kw_batchtime = bt, kw_tags = tg\<rparr> of
                  Inl e \<Rightarrow> Inl e
                | Inr variant \<Rightarrow> Inr (variants @ [variant]))) t)"
  using assms by (cases x; cases s) (simp add: alloc_def variant_step_rel)

lemma zip_body_rel:
  assumes "variants_rel s t"
  shows "rel_sum (=) variants_rel
      ((\<lambda>(variants, h).
          case item of
            [Str python, Tuple2 auth ssl, Str topology] \<Rightarrow>
              (case alloc h (da auth ssl) of
                 (expansions', h) \<Rightarrow>
                   case deref h expansions' of
                     Inl e \<Rightarrow> Inl e
                   | Inr kw \<Rightarrow>
                      (case call_get_display_name args ((''python'', python) # kw) of
                         Inl e \<Rightarrow> Inl e
                       | Inr dn \<Rightarrow>
                          (case create_variant_heap h (tn topology) dn (Some python) None hst
                                  \<lparr>kw_expansions = Some expansions', kw_batchtime = bt,
                                   kw_tags = tg\<rparr> of
                             (Inl e, _) \<Rightarrow> Inl e
                           | (Inr variant, h) \<Rightarrow> Inr (variants @ [variant], h))))
          | _ \<Rightarrow> Inl TypeError) s)
      (case item of
         [Str python, Tuple2 auth ssl, Str topology] \<Rightarrow>
           (case call_get_display_name args ((''python'', python) # da auth ssl) of
              Inl e \<Rightarrow> Inl e
            | Inr dn \<Rightarrow>
               (case create_variant (tn topology) dn (Some python) None hst
                       \<lparr>kw_expansions = Some (da auth ssl), kw_batchtime = bt, kw_tags = tg\<rparr> of
                  Inl e \<Rightarrow> Inl e
                | Inr variant \<Rightarrow> Inr (t @ [variant])))
       | _ \<Rightarrow> Inl TypeError)"
  using assms
  by (cases s) (simp add: alloc_def variant_step_rel split: list.split pyval.split)

lemma sync_body_rel:
  assumes "variants_rel s t"
  shows "rel_sum (=) variants_rel
      ((case x of (item, sync) \<Rightarrow> \<lambda>(variants, h).
          case item of
            [Str python, Tuple2 auth ssl, Str topology] \<Rightarrow>
              (case alloc h (da auth ssl sync) of
                 (expansions', h) \<Rightarrow>
                   case deref h expansions' of
                     Inl e \<Rightarrow> Inl e
                   | Inr kw \<Rightarrow>
                      (case call_get_display_name args ((''python'', python) # kw) of
                         Inl e \<Rightarrow> Inl e
                       | Inr dn \<Rightarrow>
                          (case create_variant_heap h (tn topology) dn (Some python) None hst
                                  \<lparr>kw_expansions = Some expansions', kw_batchtime = bt,
                                   kw_tags = tg\<rparr> of
                             (Inl e, _) \<Rightarrow> Inl e
                           | (Inr variant, h) \<Rightarrow> Inr (variants @ [variant], h))))
          | _ \<Rightarrow> Inl TypeError) s)
      ((case x of (item, sync) \<Rightarrow> \<lambda>variants.
         case item of
           [Str python, Tuple2 auth ssl, Str topology] \<Rightarrow>
             (case call_get_display_name args ((''python'', python) # da auth ssl sync) of
                Inl e \<Rightarrow> Inl e
              | Inr dn \<Rightarrow>
                 (case create_variant (tn topology) dn (Some python) None hst
                         \<lparr>kw_expansions = Some (da auth ssl sync), kw_batchtime = bt,
                          kw_tags = tg\<rparr> of
                    Inl e \<Rightarrow> Inl e
                  | Inr variant \<Rightarrow> Inr (variants @ [variant])))
         | _ \<Rightarrow> Inl TypeError) t)"
  using assms
  by (cases x; cases s) (simp add: alloc_def variant_step_rel split: list.split pyval.split)

lemma then_rel_pair:
  assumes "rel_sum (=) R a b"
    and "\<And>variants h t. R (variants, h) t \<Longrightarrow> rel_sum (=) R (k variants h) (k' t)"
  shows "rel_sum (=) R (case a of Inl e \<Rightarrow> Inl e | Inr (variants, h) \<Rightarrow> k variants h)
                       (case b of Inl e \<Rightarrow> Inl e | Inr t \<Rightarrow> k' t)"
  using assms by (cases a; cases b) auto

lemma for_loop_rel_pair:
  assumes "\<And>x variants h t. R (variants, h) t \<Longrightarrow> rel_sum (=) R (f x variants h) (g x t)"
    and "R s t"
  shows "rel_sum (=) R (for_loop (\<lambda>x (variants, h). f x variants h) xs s) (for_loop g xs t)"
proof (rule for_loop_rel [where R = R])
  fix x s' t'
  assume "R s' t'"
  then show "rel_sum (=) R (case s' of (variants, h) \<Rightarrow> f x variants h) (g x t')"
    using assms(1) [of "fst s'" "snd s'" t' x] by (cases s') simp
next
  show "R s t" by (rule assms(2))
qed

lemma create_server_variants_heap_rel:
  assumes ok: "hosts_ok h"
  shows "rel_sum (=) variants_rel (create_server_variants_heap h) create_server_variants"
proof -
  have start: "variants_rel ([], h) []"
    using ok by (simp add: variants_rel_def)
  show ?thesis
    unfolding create_server_variants_heap_def create_server_variants_def Let_def
    apply (rule then_rel_pair)
     apply (rule for_loop_rel [OF product_body_rel start])
     apply assumption
    apply (rule then_rel_pair)
     apply (rule for_loop_rel [OF zip_body_rel])
      apply assumption
     apply assumption
    apply (rule for_loop_rel_pair)
     apply (rule for_loop_rel [OF sync_body_rel])
      apply assumption
     apply assumption
    apply assumption
    done
qed

subsection \<open>The caller's mapping\<close>

lemma update_from_new_any:
  "update_from (h @ [d]) (length h) other
     = (case deref (h @ [d]) other of
          Inl e \<Rightarrow> Inl e
        | Inr d' \<Rightarrow> Inr (h @ [dict_update d d']))"
  by (simp add: update_from_def deref_append_new split: sum.split)

lemma prefix_deref: "prefix h h' \<Longrightarrow> b < length h \<Longrightarrow> deref h' b = deref h b"
  by (auto simp: prefix_def deref_def nth_append)

text \<open>Every call leaves the objects that existed before it as they were.\<close>

lemma create_variant_heap_prefix:
  assumes "create_variant_heap h task_names dn python version host kwargs = (result, h')"
  shows "prefix h h'"
proof -
  define h0 where "h0 = snd (case kw_expansions kwargs of None \<Rightarrow> alloc h [] | Some a \<Rightarrow> (a, h))"
  define given where
    "given = fst (case kw_expansions kwargs of None \<Rightarrow> alloc h [] | Some a \<Rightarrow> (a, h))"
  have g: "(case kw_expansions kwargs of None \<Rightarrow> alloc h [] | Some a \<Rightarrow> (a, h)) = (given, h0)"
    by (simp add: h0_def given_def)
  have p0: "prefix h h0"
    by (simp add: h0_def alloc_def split: option.split)
  show ?thesis
  proof (cases "deref h0 given")
    case (Inl e)
    with assms g p0 show ?thesis
      by (simp add: create_variant_heap_def)
  next
    case (Inr d)
    from assms show ?thesis
      by (auto simp: create_variant_heap_def g Inr alloc_def Let_def set_item_new
          update_from_new_any p0
          split: option.splits sum.splits if_splits)
  qed
qed

lemma create_variant_heap_result:
  assumes "create_variant_heap h task_names dn python version host kwargs = (Inr variant, h')"
    and "kw_expansions kwargs = Some a"
  shows "a < length h \<and> (expansions variant = None \<or> expansions variant = Some (length h))"
proof -
  have a: "a < length h"
    using assms by (cases "a < length h") (simp_all add: create_variant_heap_def deref_def)
  then have d: "deref h a = Inr (h ! a)" by (simp add: deref_def)
  from assms have "expansions variant = None \<or> expansions variant = Some (length h)"
    by (auto simp: create_variant_heap_def d a alloc_def Let_def
        split: option.splits sum.splits if_splits)
  with a show ?thesis by simp
qed

text \<open>
  Claim C10. Whatever \<open>create_variant\<close> is called with and whether it returns or raises,
  every object that existed before the call holds after it what it held before, and so
  does the object that the caller passed as \<open>expansions\<close>; a variant that is returned does
  not refer to the caller's object.
\<close>

theorem create_variant_heap_keeps_caller_expansions:
  assumes "create_variant_heap h task_names dn python version host kwargs = (result, h')"
  shows "(\<forall>b < length h. deref h' b = deref h b)
    \<and> (\<forall>a. kw_expansions kwargs = Some a \<longrightarrow>
          deref h' a = deref h a
          \<and> (\<forall>variant. result = Inr variant \<longrightarrow> a < length h \<and> expansions variant \<noteq> Some a))"
proof -
  note p = create_variant_heap_prefix [OF assms]
  then have frame: "\<forall>b < length h. deref h' b = deref h b"
    by (simp add: prefix_deref)
  have "deref h' a = deref h a
      \<and> (\<forall>variant. result = Inr variant \<longrightarrow> a < length h \<and> expansions variant \<noteq> Some a)"
    if k: "kw_expansions kwargs = Some a" for a
  proof (cases "a < length h")
    case True
    have "expansions variant \<noteq> Some a" if "result = Inr variant" for variant
      using create_variant_heap_result [OF assms [unfolded that] k] True by auto
    with True frame show ?thesis by simp
  next
    case False
    with assms k have "h' = h" "result = Inl InvalidReference"
      by (simp_all add: create_variant_heap_def deref_def)
    then show ?thesis by simp
  qed
  with frame show ?thesis by blast
qed

theorem create_variant_heap_keeps_caller_expansions_witness:
  "create_variant_heap (module_heap @ [[(''AUTH'', ''auth''), (''SKIP_CSOT_TESTS'', ''false'')]])
       [''.standalone''] ''Test macOS'' (Some ''3.9'') (Some ''4.4'') (Some ''macos'')
       \<lparr>kw_expansions = Some 2, kw_batchtime = None, kw_tags = None\<rparr>
     = (Inr \<lparr>name = ''test-macos'', display_name = ''Test macOS'', tasks = [''.standalone''],
              expansions = Some 3, run_on = [''macos-14''], batchtime = None, tags = None\<rparr>,
        module_heap @ [[(''AUTH'', ''auth''), (''SKIP_CSOT_TESTS'', ''false'')],
              [(''AUTH'', ''auth''), (''SKIP_CSOT_TESTS'', ''true''),
               (''PYTHON_BINARY'', ''/Library/Frameworks/Python.Framework/Versions/3.9/bin/python3''),
               (''VERSION'', ''4.4'')]])
   \<and> (2::nat) < length (module_heap @ [[(''AUTH'', ''auth''), (''SKIP_CSOT_TESTS'', ''false'')]])
   \<and> deref (module_heap @ [[(''AUTH'', ''auth''), (''SKIP_CSOT_TESTS'', ''false'')],
              [(''AUTH'', ''auth''), (''SKIP_CSOT_TESTS'', ''true''),
               (''PYTHON_BINARY'', ''/Library/Frameworks/Python.Framework/Versions/3.9/bin/python3''),
               (''VERSION'', ''4.4'')]]) 2
       = Inr [(''AUTH'', ''auth''), (''SKIP_CSOT_TESTS'', ''false'')]"
proof -
  let ?h = "module_heap @ [[(''AUTH'', ''auth''), (''SKIP_CSOT_TESTS'', ''false'')]]"
  let ?kw = "\<lparr>kw_expansions = Some (2::nat), kw_batchtime = None, kw_tags = None\<rparr>"
  let ?variant = "\<lparr>name = ''test-macos'', display_name = ''Test macOS'',
              tasks = [''.standalone''],
              expansions = Some (3::nat), run_on = [''macos-14''], batchtime = None, tags = None\<rparr>"
  let ?h' = "module_heap @ [[(''AUTH'', ''auth''), (''SKIP_CSOT_TESTS'', ''false'')],
              [(''AUTH'', ''auth''), (''SKIP_CSOT_TESTS'', ''true''),
               (''PYTHON_BINARY'', ''/Library/Frameworks/Python.Framework/Versions/3.9/bin/python3''),
               (''VERSION'', ''4.4'')]]"
  have run: "create_variant_heap ?h [''.standalone''] ''Test macOS'' (Some ''3.9'') (Some ''4.4'')
      (Some ''macos'') ?kw = (Inr ?variant, ?h')"
    by code_simp
  have k: "kw_expansions ?kw = Some 2" by simp
  have l: "(2::nat) < length ?h" by (simp add: module_heap_def)
  have before: "deref ?h 2 = Inr [(''AUTH'', ''auth''), (''SKIP_CSOT_TESTS'', ''false'')]"
    by (simp add: deref_def module_heap_def)
  from create_variant_heap_keeps_caller_expansions [OF run] k
  have "deref ?h' 2 = deref ?h 2" by blast
  with run l before show ?thesis by simp
qed

subsection \<open>Repeated runs\<close>

text \<open>
  Claim C5. \<open>create_server_variants\<close> reads the host tables and otherwise only objects
  that it allocates itself. So from every store that holds the host tables of the module it
  returns, the variants it returns have the same values whatever else the store holds, and
  the store it leaves holds the host tables unchanged: a second run, from the store that a
  first run left or in a new process, returns the same list of variants.
\<close>

theorem create_server_variants_deterministic:
  assumes "hosts_ok h" and "hosts_ok h'"
  shows "\<exists>vals variants k variants' k'.
       create_server_variants_heap h = Inr (variants, k)
     \<and> create_server_variants_heap h' = Inr (variants', k')
     \<and> map (variant_value k) variants = map Inr vals
     \<and> map (variant_value k') variants' = map Inr vals
     \<and> hosts_ok k \<and> hosts_ok k'
     \<and> create_server_variants = Inr vals"
proof -
  obtain vals where vals: "create_server_variants = Inr vals"
    using create_server_variants_returns by blast
  have run: "\<exists>variants k. create_server_variants_heap g = Inr (variants, k)
      \<and> map (variant_value k) variants = map Inr vals \<and> hosts_ok k"
    if "hosts_ok g" for g
    using create_server_variants_heap_rel [OF that]
    by (cases "create_server_variants_heap g") (auto simp: vals variants_rel_def)
  from run [OF assms(1)] run [OF assms(2)] vals show ?thesis by blast
qed

theorem create_server_variants_deterministic_witness:
  "hosts_ok module_heap \<and> hosts_ok (module_heap @ [[(''AUTH'', ''auth'')]])
   \<and> (\<exists>vals variants k variants' k'.
         create_server_variants_heap module_heap = Inr (variants, k)
       \<and> create_server_variants_heap (module_heap @ [[(''AUTH'', ''auth'')]])
           = Inr (variants', k')
       \<and> map (variant_value k) variants = map Inr vals
       \<and> map (variant_value k') variants' = map Inr vals
       \<and> hosts_ok k \<and> hosts_ok k'
       \<and> create_server_variants = Inr vals)"
proof -
  have a: "hosts_ok module_heap"
    by (simp add: hosts_ok_def module_heap_def deref_def macos_expansions_def)
  have b: "hosts_ok (module_heap @ [[(''AUTH'', ''auth'')]])"
    by (simp add: hosts_ok_def module_heap_def deref_def macos_expansions_def)
  from create_server_variants_deterministic [OF a b] a b show ?thesis by blast
qed

end
